theory Spec2Isabelle
  imports Main "HOL-Library.Sublist" "HOL-Library.AList"
begin

section \<open>The declared middleware pipelines of FxCore\<close>

text \<open>
  \<^verbatim>\<open>packages/fx-core/src/core/FxCore.ts\<close> declares, for every hooked method of the class
  \<^verbatim>\<open>FxCore\<close>, an ordered list of middleware in a \<^verbatim>\<open>@hooks([...])\<close> decorator. The
  middleware values are imported from \<^verbatim>\<open>./middleware/*\<close>; the ones built by a factory
  carry the argument of the call (\<^verbatim>\<open>EnvInfoLoaderMW(false)\<close>), and a call without an
  argument (\<^verbatim>\<open>EnvInfoWriterMW()\<close>) carries \<open>None\<close>.
\<close>

datatype middleware =
    ErrorHandlerMW
  | ConcurrentLockerMW
  | ProjectMigratorMW
  | ProjectSettingsLoaderMW
  | EnvInfoLoaderMW bool
  | EnvInfoLoaderMW_V3 bool
  | LocalSettingsLoaderMW
  | SolutionLoaderMW
  | SolutionLoaderMW_V3
  | QuestionModelMW
  | ContextInjectorMW
  | ProjectSettingsWriterMW
  | EnvInfoWriterMW "bool option"
  | EnvInfoWriterMW_V3 "bool option"
  | LocalSettingsWriterMW

text \<open>
  The methods of \<^verbatim>\<open>FxCore\<close>, hooked or not. The constructor \<open>M_f\<close> names the method
  \<^verbatim>\<open>f\<close>; the plain name \<open>f\<close> is kept for the function that embeds its body.
\<close>

datatype core_method =
    M_createProjectV2 | M_createProjectV3
  | M_provisionResourcesV2 | M_provisionResourcesV3
  | M_provisionTeamsAppForCLI
  | M_deployArtifactsV2 | M_deployArtifactsV3
  | M_localDebugV2
  | M_publishApplicationV2 | M_publishApplicationV3
  | M_executeUserTaskV2 | M_executeUserTaskV3
  | M_getQuestions | M_getQuestionsForUserTask
  | M_getProjectConfig | M_getProjectConfigV3
  | M_grantPermissionV2 | M_grantPermissionV3
  | M_checkPermissionV2 | M_checkPermissionV3
  | M_listCollaboratorV2 | M_listCollaboratorV3
  | M_getSelectedEnv | M_encrypt | M_decrypt
  | M_buildArtifacts
  | M_createEnv | M_createEnvWithName | M_createEnvCopy
  | M_activateEnv
  | M_init | M_addFeature

text \<open>
  The decorator of each method, in source order; \<open>None\<close> for a method without a
  decorator. \<open>cu\<close> is the value of \<^verbatim>\<open>isConfigUnifyEnabled()\<close> when the class is
  defined (the decorator of \<^verbatim>\<open>localDebugV2\<close> evaluates it).
\<close>

fun hooks :: "bool \<Rightarrow> core_method \<Rightarrow> middleware list option" where
  "hooks cu M_createProjectV2 = Some
     [ErrorHandlerMW, QuestionModelMW, ContextInjectorMW, ProjectSettingsWriterMW,
      EnvInfoWriterMW (Some True)]"
| "hooks cu M_createProjectV3 = Some [ErrorHandlerMW, QuestionModelMW, ContextInjectorMW]"
| "hooks cu M_provisionResourcesV2 = Some
     [ErrorHandlerMW, ConcurrentLockerMW, ProjectMigratorMW, ProjectSettingsLoaderMW,
      EnvInfoLoaderMW False, SolutionLoaderMW, QuestionModelMW, ContextInjectorMW,
      ProjectSettingsWriterMW, EnvInfoWriterMW None]"
| "hooks cu M_provisionResourcesV3 = Some
     [ErrorHandlerMW, ConcurrentLockerMW, ProjectMigratorMW, ProjectSettingsLoaderMW,
      EnvInfoLoaderMW_V3 False, SolutionLoaderMW_V3, QuestionModelMW, ContextInjectorMW,
      ProjectSettingsWriterMW, EnvInfoWriterMW_V3 None]"
| "hooks cu M_provisionTeamsAppForCLI = None"
| "hooks cu M_deployArtifactsV2 = Some
     [ErrorHandlerMW, ConcurrentLockerMW, ProjectMigratorMW, ProjectSettingsLoaderMW,
      EnvInfoLoaderMW False, SolutionLoaderMW, QuestionModelMW, ContextInjectorMW,
      ProjectSettingsWriterMW, EnvInfoWriterMW None]"
| "hooks cu M_deployArtifactsV3 = Some
     [ErrorHandlerMW, ConcurrentLockerMW, ProjectMigratorMW, ProjectSettingsLoaderMW,
      EnvInfoLoaderMW_V3 False, SolutionLoaderMW_V3, QuestionModelMW, ContextInjectorMW,
      ProjectSettingsWriterMW, EnvInfoWriterMW_V3 None]"
| "hooks cu M_localDebugV2 = Some
     [ErrorHandlerMW, ConcurrentLockerMW, ProjectMigratorMW, ProjectSettingsLoaderMW,
      EnvInfoLoaderMW (\<not> cu), LocalSettingsLoaderMW, SolutionLoaderMW, QuestionModelMW,
      ContextInjectorMW, ProjectSettingsWriterMW, EnvInfoWriterMW (Some (\<not> cu)),
      LocalSettingsWriterMW]"
| "hooks cu M_publishApplicationV2 = Some
     [ErrorHandlerMW, ConcurrentLockerMW, ProjectMigratorMW, ProjectSettingsLoaderMW,
      EnvInfoLoaderMW False, SolutionLoaderMW, QuestionModelMW, ContextInjectorMW,
      ProjectSettingsWriterMW, EnvInfoWriterMW None]"
| "hooks cu M_publishApplicationV3 = Some
     [ErrorHandlerMW, ConcurrentLockerMW, ProjectMigratorMW, ProjectSettingsLoaderMW,
      EnvInfoLoaderMW False, SolutionLoaderMW, QuestionModelMW, ContextInjectorMW,
      ProjectSettingsWriterMW, EnvInfoWriterMW None]"
| "hooks cu M_executeUserTaskV2 = Some
     [ErrorHandlerMW, ConcurrentLockerMW, ProjectMigratorMW, ProjectSettingsLoaderMW,
      EnvInfoLoaderMW False, LocalSettingsLoaderMW, SolutionLoaderMW, QuestionModelMW,
      ContextInjectorMW, ProjectSettingsWriterMW, EnvInfoWriterMW None]"
| "hooks cu M_executeUserTaskV3 = Some
     [ErrorHandlerMW, ConcurrentLockerMW, ProjectMigratorMW, ProjectSettingsLoaderMW,
      EnvInfoLoaderMW_V3 False, LocalSettingsLoaderMW, SolutionLoaderMW_V3, QuestionModelMW,
      ContextInjectorMW, ProjectSettingsWriterMW, EnvInfoWriterMW None]"
| "hooks cu M_getQuestions = Some
     [ErrorHandlerMW, ConcurrentLockerMW, ProjectSettingsLoaderMW, EnvInfoLoaderMW True,
      SolutionLoaderMW, ContextInjectorMW, EnvInfoWriterMW None]"
| "hooks cu M_getQuestionsForUserTask = Some
     [ErrorHandlerMW, ConcurrentLockerMW, ProjectSettingsLoaderMW, EnvInfoLoaderMW True,
      SolutionLoaderMW, ContextInjectorMW, EnvInfoWriterMW None]"
| "hooks cu M_getProjectConfig = Some
     [ErrorHandlerMW, ConcurrentLockerMW, ProjectMigratorMW, ProjectSettingsLoaderMW,
      EnvInfoLoaderMW False, LocalSettingsLoaderMW, ContextInjectorMW]"
| "hooks cu M_getProjectConfigV3 = Some
     [ErrorHandlerMW, ConcurrentLockerMW, ProjectSettingsLoaderMW, ContextInjectorMW]"
| "hooks cu M_grantPermissionV2 = Some
     [ErrorHandlerMW, ConcurrentLockerMW, ProjectMigratorMW, ProjectSettingsLoaderMW,
      EnvInfoLoaderMW False, SolutionLoaderMW, QuestionModelMW, ContextInjectorMW]"
| "hooks cu M_grantPermissionV3 = Some
     [ErrorHandlerMW, ConcurrentLockerMW, ProjectMigratorMW, ProjectSettingsLoaderMW,
      EnvInfoLoaderMW_V3 False, QuestionModelMW, ContextInjectorMW]"
| "hooks cu M_checkPermissionV2 = Some
     [ErrorHandlerMW, ConcurrentLockerMW, ProjectMigratorMW, ProjectSettingsLoaderMW,
      EnvInfoLoaderMW False, SolutionLoaderMW, QuestionModelMW, ContextInjectorMW]"
| "hooks cu M_checkPermissionV3 = Some
     [ErrorHandlerMW, ConcurrentLockerMW, ProjectMigratorMW, ProjectSettingsLoaderMW,
      EnvInfoLoaderMW_V3 False, ContextInjectorMW]"
| "hooks cu M_listCollaboratorV2 = Some
     [ErrorHandlerMW, ConcurrentLockerMW, ProjectMigratorMW, ProjectSettingsLoaderMW,
      EnvInfoLoaderMW False, SolutionLoaderMW, QuestionModelMW, ContextInjectorMW]"
| "hooks cu M_listCollaboratorV3 = Some
     [ErrorHandlerMW, ConcurrentLockerMW, ProjectMigratorMW, ProjectSettingsLoaderMW,
      EnvInfoLoaderMW_V3 False, ContextInjectorMW]"
| "hooks cu M_getSelectedEnv = Some
     [ErrorHandlerMW, ConcurrentLockerMW, ProjectSettingsLoaderMW, EnvInfoLoaderMW False,
      ContextInjectorMW]"
| "hooks cu M_encrypt = Some
     [ErrorHandlerMW, ConcurrentLockerMW, ProjectSettingsLoaderMW, EnvInfoLoaderMW True,
      ContextInjectorMW]"
| "hooks cu M_decrypt = Some
     [ErrorHandlerMW, ConcurrentLockerMW, ProjectSettingsLoaderMW, EnvInfoLoaderMW True,
      ContextInjectorMW]"
| "hooks cu M_buildArtifacts = None"
| "hooks cu M_createEnv = Some
     [ErrorHandlerMW, ConcurrentLockerMW, ProjectSettingsLoaderMW, SolutionLoaderMW,
      EnvInfoLoaderMW True, ContextInjectorMW]"
| "hooks cu M_createEnvWithName = None"
| "hooks cu M_createEnvCopy = None"
| "hooks cu M_activateEnv = Some
     [ErrorHandlerMW, ConcurrentLockerMW, ProjectMigratorMW, ProjectSettingsLoaderMW,
      SolutionLoaderMW, ContextInjectorMW, ProjectSettingsWriterMW]"
| "hooks cu M_init = Some
     [ErrorHandlerMW, QuestionModelMW, ContextInjectorMW, ProjectSettingsWriterMW]"
| "hooks cu M_addFeature = Some
     [ErrorHandlerMW, ConcurrentLockerMW, ProjectSettingsLoaderMW, SolutionLoaderMW_V3,
      EnvInfoLoaderMW_V3 False, QuestionModelMW, ContextInjectorMW, ProjectSettingsWriterMW]"

subsection \<open>The dispatchers\<close>

text \<open>
  The public operations that exist in both API generations. Each dispatcher reads the
  process-wide flag \<^verbatim>\<open>isV3()\<close> once and delegates:
  \<^verbatim>\<open>if (isV3()) return this.deployArtifactsV3(inputs); else return this.deployArtifactsV2(inputs);\<close>
  \<^verbatim>\<open>localDebug\<close> has no V3 method of its own and delegates to
  \<^verbatim>\<open>provisionResourcesV3\<close>.
\<close>

datatype operation =
    Op_createProject | Op_provisionResources | Op_deployArtifacts | Op_localDebug
  | Op_publishApplication | Op_executeUserTask | Op_grantPermission | Op_checkPermission
  | Op_listCollaborator

fun dispatch :: "bool \<Rightarrow> operation \<Rightarrow> core_method" where
  "dispatch isV3 Op_createProject = (if isV3 then M_createProjectV3 else M_createProjectV2)"
| "dispatch isV3 Op_provisionResources =
     (if isV3 then M_provisionResourcesV3 else M_provisionResourcesV2)"
| "dispatch isV3 Op_deployArtifacts = (if isV3 then M_deployArtifactsV3 else M_deployArtifactsV2)"
| "dispatch isV3 Op_localDebug = (if isV3 then M_provisionResourcesV3 else M_localDebugV2)"
| "dispatch isV3 Op_publishApplication =
     (if isV3 then M_publishApplicationV3 else M_publishApplicationV2)"
| "dispatch isV3 Op_executeUserTask = (if isV3 then M_executeUserTaskV3 else M_executeUserTaskV2)"
| "dispatch isV3 Op_grantPermission = (if isV3 then M_grantPermissionV3 else M_grantPermissionV2)"
| "dispatch isV3 Op_checkPermission = (if isV3 then M_checkPermissionV3 else M_checkPermissionV2)"
| "dispatch isV3 Op_listCollaborator =
     (if isV3 then M_listCollaboratorV3 else M_listCollaboratorV2)"

subsection \<open>Roles and API generations of the middleware\<close>

text \<open>
  The component each middleware implements, in the vocabulary of the specification
  (ErrorHandler, ConcurrencyLock, ...). The V2 and V3 variants of a loader or writer
  implement the same component for their API generation.
\<close>

datatype role =
    ErrorHandler | ConcurrencyLock | ProjectMigrator | ProjectSettingsLoader
  | EnvironmentLoader | LocalSettingsLoader | SolutionResolver | QuestionEngine
  | ContextInjector | ProjectSettingsWriter | EnvironmentWriter | LocalSettingsWriter

fun role_of :: "middleware \<Rightarrow> role" where
  "role_of ErrorHandlerMW = ErrorHandler"
| "role_of ConcurrentLockerMW = ConcurrencyLock"
| "role_of ProjectMigratorMW = ProjectMigrator"
| "role_of ProjectSettingsLoaderMW = ProjectSettingsLoader"
| "role_of (EnvInfoLoaderMW _) = EnvironmentLoader"
| "role_of (EnvInfoLoaderMW_V3 _) = EnvironmentLoader"
| "role_of LocalSettingsLoaderMW = LocalSettingsLoader"
| "role_of SolutionLoaderMW = SolutionResolver"
| "role_of SolutionLoaderMW_V3 = SolutionResolver"
| "role_of QuestionModelMW = QuestionEngine"
| "role_of ContextInjectorMW = ContextInjector"
| "role_of ProjectSettingsWriterMW = ProjectSettingsWriter"
| "role_of (EnvInfoWriterMW _) = EnvironmentWriter"
| "role_of (EnvInfoWriterMW_V3 _) = EnvironmentWriter"
| "role_of LocalSettingsWriterMW = LocalSettingsWriter"

text \<open>
  The API generation a middleware is written for: the modules
  \<^verbatim>\<open>envInfoLoaderV3\<close>, \<^verbatim>\<open>solutionLoaderV3\<close> and \<^verbatim>\<open>envInfoWriterV3\<close> export the
  \<^verbatim>\<open>_V3\<close> variants, their unsuffixed counterparts serve V2, and the remaining
  middleware is shared by both generations (\<open>None\<close>).
\<close>

datatype generation = V2 | V3

fun generation_of :: "middleware \<Rightarrow> generation option" where
  "generation_of (EnvInfoLoaderMW _) = Some V2"
| "generation_of SolutionLoaderMW = Some V2"
| "generation_of (EnvInfoWriterMW _) = Some V2"
| "generation_of (EnvInfoLoaderMW_V3 _) = Some V3"
| "generation_of SolutionLoaderMW_V3 = Some V3"
| "generation_of (EnvInfoWriterMW_V3 _) = Some V3"
| "generation_of _ = None"

definition active_generation :: "bool \<Rightarrow> generation" where
  "active_generation isV3 = (if isV3 then V3 else V2)"

text \<open>The standard order of a mutating operation: what runs before and after the target.\<close>

definition before_target :: "role list" where
  "before_target =
     [ErrorHandler, ConcurrencyLock, ProjectMigrator, ProjectSettingsLoader,
      EnvironmentLoader, SolutionResolver, QuestionEngine, ContextInjector]"

definition after_target :: "role list" where
  "after_target = [ProjectSettingsWriter, EnvironmentWriter]"

definition mutating :: "operation \<Rightarrow> bool" where
  "mutating op = (op = Op_provisionResources \<or> op = Op_deployArtifacts \<or> op = Op_publishApplication)"

section \<open>Data model\<close>

subsection \<open>Results, errors and settled promises\<close>

text \<open>
  A JavaScript exception that is not an \<^verbatim>\<open>FxError\<close>: the \<^verbatim>\<open>TypeError\<close> of a property
  read on \<^verbatim>\<open>undefined\<close>, and the errors of the file-system library.
\<close>

datatype js_error = TypeError string | IOError string

datatype Stage =
    Stage_create | Stage_build | Stage_debug | Stage_provision | Stage_deploy
  | Stage_publish | Stage_userTask | Stage_getQuestions | Stage_getProjectConfig
  | Stage_grantPermission | Stage_checkPermission | Stage_listCollaborator

type_synonym path = "string list"

record Func =
  namespace :: "string option"
  func_method :: string

text \<open>
  The error values the core builds (imported from \<^verbatim>\<open>./error\<close>), with their
  arguments; \<open>PluginError\<close> stands for the errors a plugin returns, and the last two
  are the lock error and the system error of the middleware.
\<close>

datatype FxError =
    ObjectIsUndefinedError string
  | InvalidInputError string
  | ProjectFolderExistError path
  | ProjectFolderInvalidError path
  | LoadSolutionError
  | OperationNotSupportedForExistingAppError string
  | FunctionRouterError Func
  | TaskNotSupportError Stage
  | CopyFileError js_error
  | WriteFileError js_error
  | NonExistEnvNameError string
  | UserCancelError
  | PluginError string
  | ConcurrentError path
  | SystemError js_error

text \<open>\<^verbatim>\<open>Result<T, FxError>\<close>, and what an \<^verbatim>\<open>async\<close> function settles to.\<close>

datatype 'a Result = ok 'a | err FxError

datatype thrown = ThrownFx FxError | ThrownJs js_error

datatype 'a settled = Resolved "'a Result" | Rejected thrown

fun isOk :: "'a Result \<Rightarrow> bool" where
  "isOk (ok _) = True"
| "isOk (err _) = False"

subsection \<open>The file system\<close>

text \<open>
  A path is the list of its segments from the root, and \<^verbatim>\<open>path.join(p, name)\<close> appends
  the segment \<open>name\<close>. A file holds what was written to it: a text, or the JSON
  serialisation of a value (\<^verbatim>\<open>JSON.stringify\<close> is kept symbolic).
\<close>

datatype Platform = VSCode | CLI | VS | CLI_HELP

text \<open>A JSON object (\<^verbatim>\<open>Json\<close>) is the list of its properties, in insertion order.\<close>

datatype jval = JBool bool | JString string | JObj "(string \<times> jval) list"

type_synonym json = "(string \<times> jval) list"

record SolutionSettings =
  ss_name :: string
  ss_version :: string

record ProjectSettings =
  appName :: string
  projectId :: string
  version :: "string option"
  isFromSample :: "bool option"
  solutionSettings :: "SolutionSettings option"
  programmingLanguage :: "string option"

datatype content =
    Text string
  | PackageJson "string option"
  | SettingsJson ProjectSettings
  | ConfigJson json

datatype node = File content | Dir

type_synonym filesystem = "path \<Rightarrow> node option"

fun is_file :: "node option \<Rightarrow> bool" where
  "is_file (Some (File _)) = True"
| "is_file _ = False"

definition pathExists :: "path \<Rightarrow> filesystem \<Rightarrow> bool" where
  "pathExists p fs = (fs p \<noteq> None)"

text \<open>
  \<^verbatim>\<open>fs.ensureDir\<close> creates the directory and its missing ancestors, and throws when a
  file stands where a directory is needed.
\<close>

definition ensureDir :: "path \<Rightarrow> filesystem \<Rightarrow> js_error + filesystem" where
  "ensureDir p fs =
     (if list_ex (\<lambda>q. is_file (fs q)) (prefixes p) then Inl (IOError ''ENOTDIR'')
      else Inr (\<lambda>q. if prefix q p then Some Dir else fs q))"

text \<open>
  \<^verbatim>\<open>fs.writeFile\<close> throws when the path is a directory or its parent is not one, and
  replaces the file's content otherwise.
\<close>

definition writeFile :: "path \<Rightarrow> content \<Rightarrow> filesystem \<Rightarrow> js_error + filesystem" where
  "writeFile p c fs =
     (if fs p = Some Dir \<or> p = [] then Inl (IOError ''EISDIR'')
      else if butlast p \<noteq> [] \<and> fs (butlast p) \<noteq> Some Dir then Inl (IOError ''ENOENT'')
      else Inr (fs(p \<mapsto> File c)))"

text \<open>
  \<^verbatim>\<open>fs.copy(src, dest)\<close> of fs-extra, with its default options: it throws when the
  source is missing, when source and destination are the same, and when a file would
  replace a directory or a directory a file; it creates the missing ancestors of the
  destination; a file is copied over the destination, a directory with everything below
  it.
\<close>

definition copy :: "path \<Rightarrow> path \<Rightarrow> filesystem \<Rightarrow> js_error + filesystem" where
  "copy src dest fs =
     (case fs src of
        None \<Rightarrow> Inl (IOError ''ENOENT'')
      | Some (File c) \<Rightarrow>
          if src = dest then Inl (IOError ''Source and destination must not be the same.'')
          else if fs dest = Some Dir
            then Inl (IOError ''Cannot overwrite directory with non-directory.'')
          else (case ensureDir (butlast dest) fs of
                  Inl e \<Rightarrow> Inl e
                | Inr fs1 \<Rightarrow> Inr (fs1(dest \<mapsto> File c)))
      | Some Dir \<Rightarrow>
          if prefix src dest
            then Inl (IOError ''Cannot copy a directory to itself or to a subdirectory of itself.'')
          else if is_file (fs dest)
            then Inl (IOError ''Cannot overwrite non-directory with directory.'')
          else (case ensureDir dest fs of
                  Inl e \<Rightarrow> Inl e
                | Inr fs1 \<Rightarrow>
                    Inr (\<lambda>q. if prefix dest q
                              then (case fs (src @ drop (length dest) q) of
                                      Some n \<Rightarrow> Some n
                                    | None \<Rightarrow> fs1 q)
                              else fs1 q)))"

subsection \<open>Inputs, the hook context and the solution plugins\<close>

datatype ExistingTeamsAppType = Bot | StaticTab | ConfigurableTab | MessageExtension

record ExistingAppConfig =
  isCreatedFromExistingApp :: bool
  newAppTypes :: "ExistingTeamsAppType list"

datatype answer = Str string | Strs "string list" | Folder path | Flag bool

text \<open>
  \<^verbatim>\<open>Inputs\<close>: the fields the core reads by name, and the dictionary of everything else
  (the answers of the questions, keyed by the question names).
\<close>

record Inputs =
  platform :: Platform
  stage :: "Stage option"
  projectPath :: "path option"
  env :: "string option"
  existingAppConfig :: "ExistingAppConfig option"
  answers :: "string \<Rightarrow> answer option"

text \<open>
  The shared execution context \<^verbatim>\<open>v2.Context\<close>; of its fields only the project
  settings are kept (the telemetry, logging, UI and crypto providers do not matter here).
\<close>

record Context =
  projectSetting :: ProjectSettings

record EnvInfoV2 =
  envName :: string
  config :: json
  state :: json

datatype EnvInfoV3 = EnvInfoV3 string json json

text \<open>\<^verbatim>\<open>v2.FxResult\<close>: the three-way outcome of \<^verbatim>\<open>provisionLocalResource\<close>.\<close>

datatype 'a FxResult = success 'a | partialSuccess 'a FxError | failure FxError

text \<open>
  A solution plugin is a collaborator: each method is a function of its arguments to what
  its promise settles to; the scaffolding methods also change the disk. Optional methods
  are \<open>option\<close>s. \<^verbatim>\<open>provisionLocalResource\<close> is handed the local settings object of the
  hook context by reference, and \<^verbatim>\<open>localDebugV2\<close> reads that object again afterwards:
  the method returns, beside its outcome, the local settings object as it leaves it. What
  a plugin does to the cloud, and to the other objects it is handed, is not part of this
  model.
\<close>

record SolutionV2 =
  solution_name :: string
  provisionResources_v2 :: "Context \<Rightarrow> Inputs \<Rightarrow> EnvInfoV2 \<Rightarrow> unit settled"
  deploy_v2 :: "(Context \<Rightarrow> Inputs \<Rightarrow> EnvInfoV2 \<Rightarrow> unit settled) option"
  publishApplication_v2 :: "Context \<Rightarrow> Inputs \<Rightarrow> EnvInfoV2 \<Rightarrow> unit settled"
  provisionLocalResource_v2 ::
    "(Context \<Rightarrow> Inputs \<Rightarrow> json \<Rightarrow> EnvInfoV2 option \<Rightarrow> (thrown + json FxResult) \<times> json)
       option"
  executeUserTask_v2 ::
    "(Context \<Rightarrow> Inputs \<Rightarrow> Func \<Rightarrow> json \<Rightarrow> EnvInfoV2 \<Rightarrow> json settled) option"
  grantPermission_v2 ::
    "(Context option \<Rightarrow> Inputs \<Rightarrow> EnvInfoV2 option \<Rightarrow> json settled) option"
  checkPermission_v2 ::
    "(Context option \<Rightarrow> Inputs \<Rightarrow> EnvInfoV2 option \<Rightarrow> json settled) option"
  listCollaborator_v2 ::
    "(Context option \<Rightarrow> Inputs \<Rightarrow> EnvInfoV2 option \<Rightarrow> json settled) option"
  scaffoldSourceCode_v2 :: "Context \<Rightarrow> Inputs \<Rightarrow> filesystem \<Rightarrow> unit settled \<times> filesystem"
  generateResourceTemplate_v2 ::
    "Context \<Rightarrow> Inputs \<Rightarrow> filesystem \<Rightarrow> unit settled \<times> filesystem"
  createEnv_v2 :: "(Context \<Rightarrow> Inputs \<Rightarrow> filesystem \<Rightarrow> unit settled \<times> filesystem) option"

record SolutionV3 =
  provisionResources_v3 :: "(Context \<Rightarrow> Inputs \<Rightarrow> EnvInfoV3 \<Rightarrow> unit settled) option"
  deploy_v3 :: "(Context \<Rightarrow> Inputs \<Rightarrow> EnvInfoV3 \<Rightarrow> unit settled) option"
  publishApplication_v3 :: "(Context \<Rightarrow> Inputs \<Rightarrow> EnvInfoV3 \<Rightarrow> unit settled) option"
  executeUserTask_v3 :: "(Context \<Rightarrow> Inputs \<Rightarrow> Func \<Rightarrow> EnvInfoV3 \<Rightarrow> json settled) option"

text \<open>\<^verbatim>\<open>CoreHookContext\<close>: every field is optional, and a middleware fills it in.\<close>

record CoreHookContext =
  projectSettings :: "ProjectSettings option"
  solutionV2 :: "SolutionV2 option"
  solutionV3 :: "SolutionV3 option"
  contextV2 :: "Context option"
  envInfoV2 :: "EnvInfoV2 option"
  envInfoV3 :: "EnvInfoV3 option"
  localSettings :: "json option"

text \<open>
  What a method body can read and change: the \<^verbatim>\<open>inputs\<close> object and the hook context
  it was called with (absent when the method is called without its hooks), the
  process-wide current stage, the disk, and the global state store.
\<close>

record world =
  inputs :: Inputs
  ctx :: "CoreHookContext option"
  currentStage :: "Stage option"
  disk :: filesystem
  globalState :: "string \<Rightarrow> bool option"

definition setStage :: "Stage \<Rightarrow> world \<Rightarrow> world" where
  \<comment> \<open>\<^verbatim>\<open>setCurrentStage(st); inputs.stage = st;\<close>\<close>
  "setStage st w = w\<lparr>currentStage := Some st, inputs := (inputs w)\<lparr>stage := Some st\<rparr>\<rparr>"

section \<open>Helpers that are not among the sources\<close>

text \<open>
  The constants and helper functions \<^verbatim>\<open>FxCore.ts\<close> imports from modules that are not
  among the sources are parameters of the model, collected in one record.
\<close>

record externals =
  isConfigUnifyEnabled :: bool
  isPureExistingApp :: "ProjectSettings \<Rightarrow> bool"
  newProjectSettings :: ProjectSettings
  getLocalEnvName :: string
  getDefaultEnvName :: string
  QuestionAppName_name :: string
  ConfigFolderName :: string
  InputConfigsFolderName :: string
  StatesFolderName :: string
  BuildFolderName :: string
  AppPackageFolderName :: string
  localSettingsFileName :: string
  collaborator_grantPermission :: "Context \<Rightarrow> Inputs \<Rightarrow> EnvInfoV3 \<Rightarrow> json settled"
  collaborator_checkPermission :: "Context \<Rightarrow> Inputs \<Rightarrow> EnvInfoV3 \<Rightarrow> json settled"
  collaborator_listCollaborator :: "Context \<Rightarrow> Inputs \<Rightarrow> EnvInfoV3 \<Rightarrow> json settled"
  getEnvConfigPath :: "string \<Rightarrow> path \<Rightarrow> path"

definition createV2Context :: "ProjectSettings \<Rightarrow> Context" where
  "createV2Context ps = \<lparr>projectSetting = ps\<rparr>"

text \<open>
  Modelled from the spec: \<^verbatim>\<open>undefinedName\<close> of \<^verbatim>\<open>../common/tools\<close> is not among the
  sources. A consistency error carries the offending field name: of the listed objects
  (given here by whether each is defined), the name of the first that is undefined.
\<close>

fun undefinedName :: "bool list \<Rightarrow> string list \<Rightarrow> string option" where
  "undefinedName (d # ds) (n # ns) = (if \<not> d then Some n else undefinedName ds ns)"
| "undefinedName _ _ = None"

definition template :: "string option \<Rightarrow> string" where
  \<comment> \<open>a value interpolated into a template literal\<close>
  "template v = (case v of Some s \<Rightarrow> s | None \<Rightarrow> ''undefined'')"

definition defined :: "'a option \<Rightarrow> bool" where
  "defined x = (x \<noteq> None)"

fun split_on :: "char \<Rightarrow> string \<Rightarrow> string list" where
  "split_on c [] = [[]]"
| "split_on c (x # xs) =
     (if x = c then [] # split_on c xs
      else (case split_on c xs of y # ys \<Rightarrow> (x # y) # ys | [] \<Rightarrow> [[x]]))"

definition falsy_path :: "path option \<Rightarrow> bool" where
  \<comment> \<open>\<^verbatim>\<open>!inputs.projectPath\<close>: undefined, or the empty string (the empty path)\<close>
  "falsy_path p = (p = None \<or> p = Some [])"

fun nonempty_answer :: "answer option \<Rightarrow> bool" where
  \<comment> \<open>\<^verbatim>\<open>v && v.length > 0\<close>\<close>
  "nonempty_answer (Some (Strs xs)) = (xs \<noteq> [])"
| "nonempty_answer (Some (Str s)) = (s \<noteq> [])"
| "nonempty_answer _ = False"

fun answer_string :: "answer option \<Rightarrow> string option" where
  \<comment> \<open>\<^verbatim>\<open>inputs[key] as string\<close>\<close>
  "answer_string (Some (Str s)) = Some s"
| "answer_string _ = None"

definition setLocalDebug :: "EnvInfoV2 \<Rightarrow> EnvInfoV2" where
  \<comment> \<open>\<^verbatim>\<open>envInfoV2.config.isLocalDebug = true\<close>\<close>
  "setLocalDebug e = e\<lparr>config := AList.update ''isLocalDebug'' (JBool True) (config e)\<rparr>"

section \<open>The bodies of the methods\<close>

text \<open>
  Each body maps the world it starts in to what its promise settles to and the world it
  leaves. \<^verbatim>\<open>return err(e)\<close> is \<open>Resolved (err e)\<close>; a \<^verbatim>\<open>throw\<close> inside the body is
  \<open>Rejected\<close>.
\<close>

subsection \<open>ensureBasicFolderStructure\<close>

definition join_lines :: "string list \<Rightarrow> string" where
  "join_lines ls = (case ls of [] \<Rightarrow> [] | l # rest \<Rightarrow> l @ concat (map (\<lambda>x. CHR 0x0A # x) rest))"

definition gitIgnoreContent :: "externals \<Rightarrow> Inputs \<Rightarrow> string list" where
  "gitIgnoreContent E i =
     [''node_modules'',
      ''.'' @ ConfigFolderName E @ ''/'' @ InputConfigsFolderName E @ ''/'' @ localSettingsFileName E,
      ''.'' @ ConfigFolderName E @ ''/'' @ StatesFolderName E @ ''/*.userdata'',
      ''.DS_Store'',
      ''.env.teamsfx.local'',
      ''subscriptionInfo.json'',
      BuildFolderName E]
     @ (if isConfigUnifyEnabled E
        then [''.'' @ ConfigFolderName E @ ''/'' @ InputConfigsFolderName E @ ''/config.local.json'',
              ''.'' @ ConfigFolderName E @ ''/'' @ StatesFolderName E @ ''/state.local.json'']
        else [])
     @ (if platform i = VS then [''appsettings.Development.json''] else [])"

definition ensureBasicFolderStructure ::
  "externals \<Rightarrow> Inputs \<Rightarrow> filesystem \<Rightarrow> unit Result \<times> filesystem" where
  "ensureBasicFolderStructure E i fs =
     (case projectPath i of
        None \<Rightarrow> (err (ObjectIsUndefinedError ''projectPath''), fs)
      | Some pp \<Rightarrow>
          if pp = [] then (err (ObjectIsUndefinedError ''projectPath''), fs)
          else
            (let app_name = answer_string (answers i (QuestionAppName_name E));
                 packageJsonFilePath = pp @ [''package.json''];
                 r1 = (if platform i \<noteq> VS \<and> \<not> pathExists packageJsonFilePath fs
                       then writeFile packageJsonFilePath (PackageJson app_name) fs
                       else Inr fs)
             in case r1 of
                  Inl e \<Rightarrow> (err (WriteFileError e), fs)
                | Inr fs1 \<Rightarrow>
                    (let gitIgnoreFilePath = pp @ [''.gitignore''];
                         r2 = (if \<not> pathExists gitIgnoreFilePath fs1
                               then writeFile gitIgnoreFilePath
                                      (Text (join_lines (gitIgnoreContent E i))) fs1
                               else Inr fs1)
                     in case r2 of
                          Inl e \<Rightarrow> (err (WriteFileError e), fs1)
                        | Inr fs2 \<Rightarrow> (ok (), fs2))))"

subsection \<open>provision, deploy, publish\<close>

definition provisionResourcesV2 :: "world \<Rightarrow> unit settled \<times> world" where
  "provisionResourcesV2 w0 =
     (let w = setStage Stage_provision w0 in
      case ctx w of
        None \<Rightarrow> (Resolved (err (ObjectIsUndefinedError ''Provision input stuff'')), w)
      | Some c \<Rightarrow>
          (case (solutionV2 c, contextV2 c, envInfoV2 c) of
             (Some sol, Some cx, Some envInfo) \<Rightarrow>
               (provisionResources_v2 sol cx (inputs w) envInfo, w)
           | _ \<Rightarrow> (Resolved (err (ObjectIsUndefinedError ''Provision input stuff'')), w)))"

definition provisionResourcesV3 :: "world \<Rightarrow> unit settled \<times> world" where
  "provisionResourcesV3 w0 =
     (let w = setStage Stage_provision w0 in
      case ctx w of
        None \<Rightarrow> (Resolved (ok ()), w)
      | Some c \<Rightarrow>
          (case (solutionV3 c, contextV2 c, envInfoV3 c) of
             (Some sol, Some cx, Some envInfo) \<Rightarrow>
               (case provisionResources_v3 sol of
                  Some f \<Rightarrow> (f cx (inputs w) envInfo, w)
                | None \<Rightarrow> (Resolved (ok ()), w))
           | _ \<Rightarrow> (Resolved (ok ()), w)))"

definition provisionResources :: "bool \<Rightarrow> world \<Rightarrow> unit settled \<times> world" where
  "provisionResources isV3 w = (if isV3 then provisionResourcesV3 w else provisionResourcesV2 w)"

definition deployArtifactsV2 :: "externals \<Rightarrow> world \<Rightarrow> unit settled \<times> world" where
  "deployArtifactsV2 E w0 =
     (let w = setStage Stage_deploy w0 in
      case ctx w of
        None \<Rightarrow> (Resolved (err (ObjectIsUndefinedError ''deploy input stuff'')), w)
      | Some c \<Rightarrow>
          (case projectSettings c of
             None \<Rightarrow> (Resolved (err (ObjectIsUndefinedError ''deploy input stuff'')), w)
           | Some ps \<Rightarrow>
               if isPureExistingApp E ps
               then (Resolved (err (OperationNotSupportedForExistingAppError ''deploy'')), w)
               else
                 (case (solutionV2 c, contextV2 c, envInfoV2 c) of
                    (Some sol, Some cx, Some envInfo) \<Rightarrow>
                      (case deploy_v2 sol of
                         Some f \<Rightarrow> (f cx (inputs w) envInfo, w)
                       | None \<Rightarrow> (Resolved (ok ()), w))
                  | _ \<Rightarrow>
                      (let name = undefinedName
                             [True, defined (solutionV2 c), defined (contextV2 c),
                              defined (envInfoV2 c)]
                             [''ctx'', ''ctx.solutionV2'', ''ctx.contextV2'', ''ctx.envInfoV2'']
                       in (Resolved (err (ObjectIsUndefinedError
                             (''Deploy input stuff: '' @ template name))), w)))))"

definition deployArtifactsV3 :: "world \<Rightarrow> unit settled \<times> world" where
  "deployArtifactsV3 w0 =
     (let w = setStage Stage_deploy w0 in
      case ctx w of
        None \<Rightarrow> (Resolved (ok ()), w)
      | Some c \<Rightarrow>
          (case (solutionV3 c, contextV2 c, envInfoV3 c) of
             (Some sol, Some cx, Some envInfo) \<Rightarrow>
               (case deploy_v3 sol of
                  Some f \<Rightarrow> (f cx (inputs w) envInfo, w)
                | None \<Rightarrow> (Resolved (ok ()), w))
           | _ \<Rightarrow> (Resolved (ok ()), w)))"

definition deployArtifacts :: "externals \<Rightarrow> bool \<Rightarrow> world \<Rightarrow> unit settled \<times> world" where
  "deployArtifacts E isV3 w = (if isV3 then deployArtifactsV3 w else deployArtifactsV2 E w)"

definition publishApplicationV2 :: "world \<Rightarrow> unit settled \<times> world" where
  "publishApplicationV2 w0 =
     (let w = setStage Stage_publish w0 in
      case ctx w of
        None \<Rightarrow>
          (let name = undefinedName [False, False, False, False]
                 [''ctx'', ''ctx.solutionV2'', ''ctx.contextV2'', ''ctx.envInfoV2'']
           in (Resolved (err (ObjectIsUndefinedError
                 (''publish input stuff: '' @ template name))), w))
      | Some c \<Rightarrow>
          (case (solutionV2 c, contextV2 c, envInfoV2 c) of
             (Some sol, Some cx, Some envInfo) \<Rightarrow>
               (publishApplication_v2 sol cx (inputs w) envInfo, w)
           | _ \<Rightarrow>
               (let name = undefinedName
                      [True, defined (solutionV2 c), defined (contextV2 c),
                       defined (envInfoV2 c)]
                      [''ctx'', ''ctx.solutionV2'', ''ctx.contextV2'', ''ctx.envInfoV2'']
                in (Resolved (err (ObjectIsUndefinedError
                      (''publish input stuff: '' @ template name))), w))))"

definition publishApplicationV3 :: "world \<Rightarrow> unit settled \<times> world" where
  "publishApplicationV3 w0 =
     (let w = setStage Stage_publish w0 in
      case ctx w of
        None \<Rightarrow> (Resolved (ok ()), w)
      | Some c \<Rightarrow>
          (case (solutionV3 c, contextV2 c, envInfoV3 c) of
             (Some sol, Some cx, Some envInfo) \<Rightarrow>
               (case publishApplication_v3 sol of
                  Some f \<Rightarrow> (f cx (inputs w) envInfo, w)
                | None \<Rightarrow> (Resolved (ok ()), w))
           | _ \<Rightarrow> (Resolved (ok ()), w)))"

definition publishApplication :: "bool \<Rightarrow> world \<Rightarrow> unit settled \<times> world" where
  "publishApplication isV3 w = (if isV3 then publishApplicationV3 w else publishApplicationV2 w)"

subsection \<open>localDebug\<close>

definition localDebugV2 :: "externals \<Rightarrow> world \<Rightarrow> unit settled \<times> world" where
  "localDebugV2 E w0 =
     (let w = setStage Stage_debug w0 in
      case ctx w of
        None \<Rightarrow> (Resolved (err (ObjectIsUndefinedError ''local debug input stuff'')), w)
      | Some c \<Rightarrow>
          (case projectSettings c of
             None \<Rightarrow> (Resolved (err (ObjectIsUndefinedError ''local debug input stuff'')), w)
           | Some ps \<Rightarrow>
               (case (solutionV2 c, contextV2 c) of
                  (Some sol, Some cx) \<Rightarrow>
                    (let ls = (case localSettings c of None \<Rightarrow> [] | Some l \<Rightarrow> l);
                         c1 = c\<lparr>localSettings := Some ls\<rparr>
                     in case provisionLocalResource_v2 sol of
                          None \<Rightarrow> (Resolved (ok ()), w\<lparr>ctx := Some c1\<rparr>)
                        | Some f \<Rightarrow>
                            (let c2 = (if isConfigUnifyEnabled E
                                       then c1\<lparr>envInfoV2 := map_option setLocalDebug (envInfoV2 c1)\<rparr>
                                       else c1)
                             in case f cx (inputs w) ls (envInfoV2 c2) of
                                  (res, ls') \<Rightarrow>
                                    (let c3 = c2\<lparr>localSettings := Some ls'\<rparr>
                                     in case res of
                                          Inl t \<Rightarrow> (Rejected t, w\<lparr>ctx := Some c3\<rparr>)
                                        | Inr (success output) \<Rightarrow>
                                            (Resolved (ok ()),
                                             w\<lparr>ctx := Some (c3\<lparr>localSettings := Some output\<rparr>)\<rparr>)
                                        | Inr (partialSuccess output e) \<Rightarrow>
                                            (Resolved (err e),
                                             w\<lparr>ctx := Some (c3\<lparr>localSettings := Some output\<rparr>)\<rparr>)
                                        | Inr (failure e) \<Rightarrow>
                                            (Resolved (err e), w\<lparr>ctx := Some c3\<rparr>))))
                | _ \<Rightarrow>
                    (let name = undefinedName
                           [True, defined (solutionV2 c), defined (contextV2 c)]
                           [''ctx'', ''ctx.solutionV2'', ''ctx.contextV2'']
                     in (Resolved (err (ObjectIsUndefinedError
                           (''localDebug input stuff ('' @ template name @ '')''))), w)))))"

definition localDebug :: "externals \<Rightarrow> bool \<Rightarrow> world \<Rightarrow> unit settled \<times> world" where
  "localDebug E isV3 w0 =
     (let w = w0\<lparr>inputs := (inputs w0)\<lparr>env := Some (getLocalEnvName E)\<rparr>\<rparr> in
      if isV3 then provisionResourcesV3 w else localDebugV2 E w)"

subsection \<open>executeUserTask\<close>

definition routed :: "Func \<Rightarrow> bool" where
  \<comment> \<open>\<^verbatim>\<open>"" !== namespace && array.length > 0\<close>, with
      \<^verbatim>\<open>array = namespace ? namespace.split("/") : []\<close>\<close>
  "routed func =
     (let array = (case namespace func of
                     None \<Rightarrow> []
                   | Some ns \<Rightarrow> if ns = [] then [] else split_on (CHR ''/'') ns)
      in namespace func \<noteq> Some [] \<and> length array > 0)"

definition executeUserTaskV2 :: "externals \<Rightarrow> Func \<Rightarrow> world \<Rightarrow> json settled \<times> world" where
  "executeUserTaskV2 E func w0 =
     (let w1 = setStage Stage_userTask w0;
          w = (if isConfigUnifyEnabled E \<and> env (inputs w1) = Some (getLocalEnvName E)
               then w1\<lparr>ctx := map_option
                      (\<lambda>c. c\<lparr>envInfoV2 := map_option setLocalDebug (envInfoV2 c)\<rparr>) (ctx w1)\<rparr>
               else w1)
      in if routed func then
           (case ctx w of
              None \<Rightarrow>
                (let name = undefinedName [False, False, False]
                       [''ctx'', ''ctx.solutionV2'', ''ctx.envInfoV2'']
                 in (Resolved (err (ObjectIsUndefinedError
                       (''executeUserTask input stuff: '' @ template name))), w))
            | Some c \<Rightarrow>
                (case (solutionV2 c, envInfoV2 c) of
                   (Some sol, Some envInfo) \<Rightarrow>
                     (let cx = (case contextV2 c of
                                  None \<Rightarrow> createV2Context (newProjectSettings E)
                                | Some x \<Rightarrow> x);
                          c1 = c\<lparr>contextV2 := Some cx\<rparr>
                      in case executeUserTask_v2 sol of
                           None \<Rightarrow> (Resolved (err (FunctionRouterError func)), w\<lparr>ctx := Some c1\<rparr>)
                         | Some f \<Rightarrow>
                             (let ls = (case localSettings c1 of None \<Rightarrow> [] | Some l \<Rightarrow> l);
                                  c2 = c1\<lparr>localSettings := Some ls\<rparr>;
                                  w2 = w\<lparr>ctx := Some c2\<rparr>;
                                  res = f cx (inputs w2) func ls envInfo
                              in case res of
                                   Resolved (ok v) \<Rightarrow>
                                     if func_method func = ''addCapability''
                                        \<and> nonempty_answer (answers (inputs w2) ''capabilities'')
                                     then (res, w2\<lparr>disk := snd (ensureBasicFolderStructure E
                                                   (inputs w2) (disk w2))\<rparr>)
                                     else (res, w2)
                                 | _ \<Rightarrow> (res, w2)))
                 | _ \<Rightarrow>
                     (let name = undefinedName
                            [True, defined (solutionV2 c), defined (envInfoV2 c)]
                            [''ctx'', ''ctx.solutionV2'', ''ctx.envInfoV2'']
                      in (Resolved (err (ObjectIsUndefinedError
                            (''executeUserTask input stuff: '' @ template name))), w))))
         else (Resolved (err (FunctionRouterError func)), w))"

definition executeUserTaskV3 :: "externals \<Rightarrow> Func \<Rightarrow> world \<Rightarrow> json settled \<times> world" where
  "executeUserTaskV3 E func w0 =
     (let w = setStage Stage_userTask w0
      in if routed func then
           (case ctx w of
              None \<Rightarrow>
                (let name = undefinedName [False, False, False]
                       [''ctx'', ''ctx.solutionV3'', ''ctx.envInfoV3'']
                 in (Resolved (err (ObjectIsUndefinedError
                       (''executeUserTask input stuff: '' @ template name))), w))
            | Some c \<Rightarrow>
                (case (solutionV3 c, envInfoV3 c) of
                   (Some sol, Some envInfo) \<Rightarrow>
                     (let cx = (case contextV2 c of
                                  None \<Rightarrow> createV2Context (newProjectSettings E)
                                | Some x \<Rightarrow> x);
                          w1 = w\<lparr>ctx := Some (c\<lparr>contextV2 := Some cx\<rparr>)\<rparr>
                      in case executeUserTask_v3 sol of
                           None \<Rightarrow> (Resolved (err (FunctionRouterError func)), w1)
                         | Some f \<Rightarrow> (f cx (inputs w1) func envInfo, w1))
                 | _ \<Rightarrow>
                     (let name = undefinedName
                            [True, defined (solutionV3 c), defined (envInfoV3 c)]
                            [''ctx'', ''ctx.solutionV3'', ''ctx.envInfoV3'']
                      in (Resolved (err (ObjectIsUndefinedError
                            (''executeUserTask input stuff: '' @ template name))), w))))
         else (Resolved (err (FunctionRouterError func)), w))"

subsection \<open>grantPermission, checkPermission, listCollaborator\<close>

text \<open>
  The V2 bodies read \<^verbatim>\<open>ctx!.solutionV2!.grantPermission!(...)\<close>: the non-null
  assertions vanish at run time, so an absent context, solution or method throws a
  \<^verbatim>\<open>TypeError\<close>, and an absent \<^verbatim>\<open>contextV2\<close> or \<^verbatim>\<open>envInfoV2\<close> reaches the plugin.
\<close>

definition permissionV2 ::
  "Stage \<Rightarrow> (SolutionV2 \<Rightarrow> (Context option \<Rightarrow> Inputs \<Rightarrow> EnvInfoV2 option \<Rightarrow> json settled) option)
     \<Rightarrow> world \<Rightarrow> json settled \<times> world" where
  "permissionV2 st meth w0 =
     (let w = setStage st w0 in
      if falsy_path (projectPath (inputs w))
      then (Resolved (err (ObjectIsUndefinedError ''projectPath'')), w)
      else
        (case ctx w of
           None \<Rightarrow> (Rejected (ThrownJs (TypeError ''ctx is undefined'')), w)
         | Some c \<Rightarrow>
             (case solutionV2 c of
                None \<Rightarrow> (Rejected (ThrownJs (TypeError ''ctx.solutionV2 is undefined'')), w)
              | Some sol \<Rightarrow>
                  (case meth sol of
                     None \<Rightarrow> (Rejected (ThrownJs (TypeError ''not a function'')), w)
                   | Some f \<Rightarrow> (f (contextV2 c) (inputs w) (envInfoV2 c), w)))))"

definition grantPermissionV2 :: "world \<Rightarrow> json settled \<times> world" where
  "grantPermissionV2 = permissionV2 Stage_grantPermission grantPermission_v2"

definition checkPermissionV2 :: "world \<Rightarrow> json settled \<times> world" where
  "checkPermissionV2 = permissionV2 Stage_checkPermission checkPermission_v2"

definition listCollaboratorV2 :: "world \<Rightarrow> json settled \<times> world" where
  "listCollaboratorV2 = permissionV2 Stage_listCollaborator listCollaborator_v2"

definition permissionV3 ::
  "Stage \<Rightarrow> (Context \<Rightarrow> Inputs \<Rightarrow> EnvInfoV3 \<Rightarrow> json settled) \<Rightarrow> world \<Rightarrow> json settled \<times> world" where
  "permissionV3 st collab w0 =
     (let w = setStage st w0 in
      if falsy_path (projectPath (inputs w))
      then (Resolved (err (ObjectIsUndefinedError ''projectPath'')), w)
      else
        (case ctx w of
           None \<Rightarrow> (Resolved (err (ObjectIsUndefinedError ''ctx, contextV2, envInfoV3'')), w)
         | Some c \<Rightarrow>
             (case (contextV2 c, envInfoV3 c) of
                (Some cx, Some envInfo) \<Rightarrow> (collab cx (inputs w) envInfo, w)
              | _ \<Rightarrow> (Resolved (err (ObjectIsUndefinedError ''ctx, contextV2, envInfoV3'')), w))))"

definition grantPermissionV3 :: "externals \<Rightarrow> world \<Rightarrow> json settled \<times> world" where
  "grantPermissionV3 E = permissionV3 Stage_grantPermission (collaborator_grantPermission E)"

definition checkPermissionV3 :: "externals \<Rightarrow> world \<Rightarrow> json settled \<times> world" where
  "checkPermissionV3 E = permissionV3 Stage_checkPermission (collaborator_checkPermission E)"

definition listCollaboratorV3 :: "externals \<Rightarrow> world \<Rightarrow> json settled \<times> world" where
  "listCollaboratorV3 E = permissionV3 Stage_listCollaborator (collaborator_listCollaborator E)"

subsection \<open>createProject\<close>

text \<open>
  What \<^verbatim>\<open>createProjectV2\<close>, \<^verbatim>\<open>createProjectV3\<close> and \<^verbatim>\<open>_init\<close> import from modules
  that are not among the sources: the question names and option ids of \<^verbatim>\<open>./question\<close>,
  the environment manager, the app-studio plugin, the sample downloader, the plugin
  container, and the hooked method \<^verbatim>\<open>addFeature\<close> as a whole. \<^verbatim>\<open>matchesPattern\<close> says
  whether a name matches the regular expression \<^verbatim>\<open>ProjectNamePattern\<close>.
\<close>

record ManifestCapability =
  capability_name :: string
  existingApp :: bool

record creation =
  QuestionRootFolder_name :: string
  CoreQuestionNames_CreateFromScratch :: string
  CoreQuestionNames_ProgrammingLanguage :: string
  CoreQuestionNames_Solution :: string
  CoreQuestionNames_Capabilities :: string
  ScratchOptionNo_id :: string
  TabSPFxItem_id :: string
  TabOptionItem_id :: string
  BotOptionItem_id :: string
  MessageExtensionItem_id :: string
  BuiltInFeaturePluginNames_aad :: string
  BuiltInFeaturePluginNames_dotnet :: string
  BuiltInFeaturePluginNames_frontend :: string
  BuiltInFeaturePluginNames_spfx :: string
  BuiltInFeaturePluginNames_bot :: string
  getRootDirectory :: path
  ProjectNamePattern :: string
  matchesPattern :: "string \<Rightarrow> bool"
  uuid_v4 :: string
  getProjectSettingsVersion :: string
  getProjectSettingsPath :: "path \<Rightarrow> path"
  getLocalAppName :: "string \<Rightarrow> string"
  newEnvConfigData :: "string \<Rightarrow> ExistingAppConfig option \<Rightarrow> json"
  writeEnvConfig ::
    "path option \<Rightarrow> json \<Rightarrow> string \<Rightarrow> filesystem \<Rightarrow> path settled \<times> filesystem"
  downloadSample :: "world \<Rightarrow> path settled \<times> world"
  appStudio_init :: "Context \<Rightarrow> Inputs \<Rightarrow> filesystem \<Rightarrow> unit settled \<times> filesystem"
  appStudio_addCapabilities ::
    "Context \<Rightarrow> Inputs \<Rightarrow> ManifestCapability list \<Rightarrow> filesystem \<Rightarrow> unit settled \<times> filesystem"
  getSolutionPluginV2ByName :: "answer option \<Rightarrow> SolutionV2 option"
  addFeature_run :: "Inputs \<Rightarrow> string list \<Rightarrow> world \<Rightarrow> unit settled \<times> world"































subsection \<open>buildArtifacts and createEnvCopy\<close>

definition buildArtifacts :: "world \<Rightarrow> unit settled \<times> world" where
  \<comment> \<open>\<^verbatim>\<open>throw new TaskNotSupportError(Stage.build);\<close>\<close>
  "buildArtifacts w = (Rejected (ThrownFx (TaskNotSupportError Stage_build)), w)"

text \<open>
  \<^verbatim>\<open>createEnvCopy\<close> computes both paths outside its \<^verbatim>\<open>try\<close> (with
  \<^verbatim>\<open>inputs.projectPath!\<close>, so an absent project path throws a \<^verbatim>\<open>TypeError\<close> in the
  path functions) and copies inside it.
\<close>

definition createEnvCopy ::
  "externals \<Rightarrow> string \<Rightarrow> string \<Rightarrow> world \<Rightarrow> unit settled \<times> world" where
  "createEnvCopy E targetEnvName sourceEnvName w =
     (case projectPath (inputs w) of
        None \<Rightarrow> (Rejected (ThrownJs (TypeError ''path must be a string'')), w)
      | Some pp \<Rightarrow>
          (let targetEnvConfigFilePath = getEnvConfigPath E targetEnvName pp;
               sourceEnvConfigFilePath = getEnvConfigPath E sourceEnvName pp
           in case copy sourceEnvConfigFilePath targetEnvConfigFilePath (disk w) of
                Inl e \<Rightarrow> (Resolved (err (CopyFileError e)), w)
              | Inr fs \<Rightarrow> (Resolved (ok ()), w\<lparr>disk := fs\<rparr>)))"

definition grantPermission :: "externals \<Rightarrow> bool \<Rightarrow> world \<Rightarrow> json settled \<times> world" where
  "grantPermission E isV3 w = (if isV3 then grantPermissionV3 E w else grantPermissionV2 w)"

definition checkPermission :: "externals \<Rightarrow> bool \<Rightarrow> world \<Rightarrow> json settled \<times> world" where
  "checkPermission E isV3 w = (if isV3 then checkPermissionV3 E w else checkPermissionV2 w)"

definition listCollaborator :: "externals \<Rightarrow> bool \<Rightarrow> world \<Rightarrow> json settled \<times> world" where
  "listCollaborator E isV3 w = (if isV3 then listCollaboratorV3 E w else listCollaboratorV2 w)"

definition executeUserTask ::
  "externals \<Rightarrow> bool \<Rightarrow> Func \<Rightarrow> world \<Rightarrow> json settled \<times> world" where
  "executeUserTask E isV3 func w =
     (if isV3 then executeUserTaskV3 E func w else executeUserTaskV2 E func w)"

section \<open>Vocabulary of the properties\<close>

text \<open>A consistency error: the \<^verbatim>\<open>ObjectIsUndefinedError\<close> returned as a failure result.\<close>

fun consistency_error :: "'a settled \<Rightarrow> bool" where
  "consistency_error (Resolved (err (ObjectIsUndefinedError _))) = True"
| "consistency_error _ = False"

text \<open>
  \<open>absent P w\<close>: the target operation runs without the context fields \<open>P\<close> asks for
  (the hook context itself is missing, or \<open>P\<close> fails on it).
\<close>

definition absent :: "(CoreHookContext \<Rightarrow> bool) \<Rightarrow> world \<Rightarrow> bool" where
  "absent P w = (case ctx w of None \<Rightarrow> True | Some c \<Rightarrow> \<not> P c)"

text \<open>
  \<open>missing w candidates\<close>: the name of the first context field that is absent when the target
  operation runs in the world \<open>w\<close>: \<open>ctx\<close> when there is no hook context at all, and
  otherwise the first of the listed fields that is absent (a field is listed with its
  name and with the test of its presence).
\<close>

definition missing :: "world \<Rightarrow> (string \<times> (CoreHookContext \<Rightarrow> bool)) list \<Rightarrow> string option" where
  "missing w candidates =
     (case ctx w of
        None \<Rightarrow> Some ''ctx''
      | Some c \<Rightarrow> map_option fst (find (\<lambda>(n, present). \<not> present c) candidates))"

definition field_solutionV2 :: "string \<times> (CoreHookContext \<Rightarrow> bool)" where
  "field_solutionV2 = (''ctx.solutionV2'', \<lambda>c. solutionV2 c \<noteq> None)"

definition field_solutionV3 :: "string \<times> (CoreHookContext \<Rightarrow> bool)" where
  "field_solutionV3 = (''ctx.solutionV3'', \<lambda>c. solutionV3 c \<noteq> None)"

definition field_contextV2 :: "string \<times> (CoreHookContext \<Rightarrow> bool)" where
  "field_contextV2 = (''ctx.contextV2'', \<lambda>c. contextV2 c \<noteq> None)"

definition field_envInfoV2 :: "string \<times> (CoreHookContext \<Rightarrow> bool)" where
  "field_envInfoV2 = (''ctx.envInfoV2'', \<lambda>c. envInfoV2 c \<noteq> None)"

definition field_envInfoV3 :: "string \<times> (CoreHookContext \<Rightarrow> bool)" where
  "field_envInfoV3 = (''ctx.envInfoV3'', \<lambda>c. envInfoV3 c \<noteq> None)"

definition pureExisting :: "externals \<Rightarrow> world \<Rightarrow> bool" where
  "pureExisting E w =
     (case ctx w of
        None \<Rightarrow> False
      | Some c \<Rightarrow> (case projectSettings c of None \<Rightarrow> False | Some ps \<Rightarrow> isPureExistingApp E ps))"


text \<open>
  The folder a new project is created in: the root directory of the tool under VS Code
  (and, in V3, under Visual Studio), the answer of the folder question otherwise.
\<close>

definition uses_root :: "bool \<Rightarrow> world \<Rightarrow> bool" where
  "uses_root isV3 w = (platform (inputs w) = VSCode \<or> (isV3 \<and> platform (inputs w) = VS))"


definition root_ready :: "creation \<Rightarrow> bool \<Rightarrow> world \<Rightarrow> bool" where
  \<comment> \<open>no file stands in the way of the root directory, where it is used\<close>
  "root_ready C isV3 w =
     (if uses_root isV3 w
      then \<not> list_ex (\<lambda>q. is_file (disk w q)) (prefixes (getRootDirectory C))
      else True)"


definition settings_of :: "world \<Rightarrow> ProjectSettings option" where
  "settings_of w = (case ctx w of None \<Rightarrow> None | Some c \<Rightarrow> projectSettings c)"

definition localSettings_of :: "world \<Rightarrow> json option" where
  "localSettings_of w = (case ctx w of None \<Rightarrow> None | Some c \<Rightarrow> localSettings c)"

definition envInfoV2_of :: "world \<Rightarrow> EnvInfoV2 option" where
  "envInfoV2_of w = (case ctx w of None \<Rightarrow> None | Some c \<Rightarrow> envInfoV2 c)"

definition envInfoV3_of :: "world \<Rightarrow> EnvInfoV3 option" where
  "envInfoV3_of w = (case ctx w of None \<Rightarrow> None | Some c \<Rightarrow> envInfoV3 c)"

definition copyable :: "path \<Rightarrow> path \<Rightarrow> filesystem \<Rightarrow> bool" where
  \<comment> \<open>nothing stands in the way of copying a file from \<open>src\<close> to \<open>dest\<close>\<close>
  "copyable src dest fs =
     (src \<noteq> dest \<and> fs dest \<noteq> Some Dir
      \<and> \<not> list_ex (\<lambda>q. is_file (fs q)) (prefixes (butlast dest)))"


definition after_root :: "creation \<Rightarrow> bool \<Rightarrow> world \<Rightarrow> js_error + filesystem" where
  "after_root C isV3 w =
     (if uses_root isV3 w then ensureDir (getRootDirectory C) (disk w) else Inr (disk w))"

definition assign_folder :: "path \<Rightarrow> world \<Rightarrow> world" where
  "assign_folder fo w =
     w\<lparr>inputs := (inputs w)\<lparr>answers := (answers (inputs w))(''folder'' \<mapsto> Folder fo)\<rparr>\<rparr>"

section \<open>Running a pipeline\<close>

text \<open>
  Modelled from the spec: the hooks runner and the middleware of \<^verbatim>\<open>./middleware/*\<close> are
  not among the sources. Following the specification (4.1), a middleware has a
  \<^emph>\<open>before\<close> phase, which either lets the chain go on or short-circuits it with a
  result, and an \<^emph>\<open>after\<close> phase, which sees the result of everything inside it. The
  runner executes the before phases in list order, then the target operation, then the
  after phases of the middleware that were entered, in reverse order of entry. A
  middleware that short-circuits is not entered: nothing inside it runs, and its own
  after phase does not run. A fault thrown by a phase or by the target is the result
  \<open>Rejected\<close>, which travels outwards like any other result.
\<close>

datatype 'a entry = Refuse "'a settled" | Enter "path option"

record ('s, 'a) phases =
  before :: "'s \<Rightarrow> 'a entry \<times> 's"
  after :: "path option \<Rightarrow> 'a settled \<Rightarrow> 's \<Rightarrow> 'a settled \<times> 's"

datatype step = BeforeOf middleware | TargetRun | AfterOf middleware

fun run_pipeline ::
  "(middleware \<Rightarrow> ('s, 'a) phases) \<Rightarrow> middleware list \<Rightarrow> ('s \<Rightarrow> 'a settled \<times> 's) \<Rightarrow> 's
     \<Rightarrow> ('a settled \<times> 's) \<times> step list" where
  "run_pipeline sem [] target s = (target s, [TargetRun])"
| "run_pipeline sem (m # ms) target s =
     (case before (sem m) s of
        (Refuse r, s1) \<Rightarrow> ((r, s1), [BeforeOf m])
      | (Enter h, s1) \<Rightarrow>
          (case run_pipeline sem ms target s1 of
             ((r, s2), tr) \<Rightarrow> (after (sem m) h r s2, BeforeOf m # tr @ [AfterOf m])))"

text \<open>
  A call of a method: through its declared pipeline when it has one, directly otherwise.
\<close>

definition call_method ::
  "bool \<Rightarrow> (middleware \<Rightarrow> ('s, 'a) phases) \<Rightarrow> core_method \<Rightarrow> ('s \<Rightarrow> 'a settled \<times> 's) \<Rightarrow> 's
     \<Rightarrow> 'a settled \<times> 's" where
  "call_method cu sem m target s =
     (case hooks cu m of
        None \<Rightarrow> target s
      | Some mws \<Rightarrow> fst (run_pipeline sem mws target s))"

subsection \<open>The process: a world and the outstanding lock handles\<close>

text \<open>
  Modelled from the spec: (section 4.2) \<^verbatim>\<open>acquire(projectPath)\<close> returns a handle, or fails with
  a lock error if another handle for the same path is outstanding;
  \<^verbatim>\<open>release(handle)\<close> is idempotent. A handle is the pair of the pipeline run that holds
  it and the project path.
\<close>

type_synonym handles = "(nat \<times> path) set"

definition acquire :: "nat \<Rightarrow> path \<Rightarrow> handles \<Rightarrow> FxError + handles" where
  "acquire run p hs = (if p \<in> snd ` hs then Inl (ConcurrentError p) else Inr (insert (run, p) hs))"

definition release :: "nat \<Rightarrow> path \<Rightarrow> handles \<Rightarrow> handles" where
  "release run p hs = hs - {(run, p)}"

record process =
  world :: world
  held :: handles

definition lift :: "(world \<Rightarrow> 'a \<times> world) \<Rightarrow> process \<Rightarrow> 'a \<times> process" where
  \<comment> \<open>a function of the world, run in a process\<close>
  "lift f s = (case f (world s) of (x, w) \<Rightarrow> (x, s\<lparr>world := w\<rparr>))"

subsection \<open>The middleware the properties depend on\<close>

text \<open>
  Modelled from the spec: (sections 4.1, 7) \<^verbatim>\<open>ErrorHandlerMW\<close> lets the chain run and converts a
  fault that reaches it into a failure result: a thrown \<^verbatim>\<open>FxError\<close> as it is, anything
  else wrapped as a system error.
\<close>

definition assembleError :: "thrown \<Rightarrow> FxError" where
  "assembleError t = (case t of ThrownFx e \<Rightarrow> e | ThrownJs e \<Rightarrow> SystemError e)"

definition ErrorHandler_phases :: "('s, 'a) phases" where
  "ErrorHandler_phases =
     \<lparr>before = (\<lambda>s. (Enter None, s)),
      after = (\<lambda>h r s. (case r of Rejected t \<Rightarrow> Resolved (err (assembleError t)) | _ \<Rightarrow> r, s))\<rparr>"

text \<open>
  Modelled from the spec: (sections 3, 4.2) \<^verbatim>\<open>ConcurrentLockerMW\<close> acquires the lock of the
  project path before anything inside it runs, fails fast with the lock error when the
  lock is taken, and releases its handle when the chain comes back, whatever the result.
  Without a project path there is nothing to lock.
\<close>

definition ConcurrentLocker_phases :: "nat \<Rightarrow> (process, 'a) phases" where
  "ConcurrentLocker_phases run =
     \<lparr>before = (\<lambda>s. case projectPath (inputs (world s)) of
                       None \<Rightarrow> (Enter None, s)
                     | Some p \<Rightarrow>
                         (case acquire run p (held s) of
                            Inl e \<Rightarrow> (Refuse (Resolved (err e)), s)
                          | Inr hs \<Rightarrow> (Enter (Some p), s\<lparr>held := hs\<rparr>))),
      after = (\<lambda>h r s. (r, case h of
                              None \<Rightarrow> s
                            | Some p \<Rightarrow> s\<lparr>held := release run p (held s)\<rparr>))\<rparr>"

text \<open>
  Modelled from the spec: (sections 4.1, 5, 8) the writers act in their after phase, whatever the
  result of the target: \<^verbatim>\<open>ProjectSettingsWriterMW\<close> persists the project settings of
  the hook context, the environment writers persist the configuration and the state of
  the active environment, as a pair, and \<^verbatim>\<open>LocalSettingsWriterMW\<close> persists the local
  settings. The paths are parameters. A writer whose context field or project path is
  absent has nothing to persist. The specification does not describe the argument of the
  environment writers: it is taken to be a flag that makes the writer skip its work
  (\<^verbatim>\<open>false\<close> when omitted), as the decorator of \<^verbatim>\<open>localDebugV2\<close> suggests, which hands
  the same condition to the environment loader and to the environment writer.
\<close>

record ('a) pipeline_params =
  run_id :: nat
  settingsPath :: "path \<Rightarrow> path"
  envConfigPath :: "string \<Rightarrow> path \<Rightarrow> path"
  envStatePath :: "string \<Rightarrow> path \<Rightarrow> path"
  localSettingsPath :: "path \<Rightarrow> path"
  other :: "middleware \<Rightarrow> (world, 'a) phases"

definition persistSettings :: "'a pipeline_params \<Rightarrow> world \<Rightarrow> world" where
  "persistSettings P w =
     (case (projectPath (inputs w), settings_of w) of
        (Some pp, Some ps) \<Rightarrow> w\<lparr>disk := (disk w)(settingsPath P pp \<mapsto> File (SettingsJson ps))\<rparr>
      | _ \<Rightarrow> w)"

definition persistEnvV2 :: "'a pipeline_params \<Rightarrow> world \<Rightarrow> world" where
  "persistEnvV2 P w =
     (case (projectPath (inputs w), case ctx w of None \<Rightarrow> None | Some c \<Rightarrow> envInfoV2 c) of
        (Some pp, Some e) \<Rightarrow>
          w\<lparr>disk := (disk w)
               (envConfigPath P (envName e) pp \<mapsto> File (ConfigJson (config e)),
                envStatePath P (envName e) pp \<mapsto> File (ConfigJson (state e)))\<rparr>
      | _ \<Rightarrow> w)"

definition persistEnvV3 :: "'a pipeline_params \<Rightarrow> world \<Rightarrow> world" where
  "persistEnvV3 P w =
     (case (projectPath (inputs w), case ctx w of None \<Rightarrow> None | Some c \<Rightarrow> envInfoV3 c) of
        (Some pp, Some (EnvInfoV3 name cfg st)) \<Rightarrow>
          w\<lparr>disk := (disk w)
               (envConfigPath P name pp \<mapsto> File (ConfigJson cfg),
                envStatePath P name pp \<mapsto> File (ConfigJson st))\<rparr>
      | _ \<Rightarrow> w)"

definition persistLocalSettings :: "'a pipeline_params \<Rightarrow> world \<Rightarrow> world" where
  "persistLocalSettings P w =
     (case (projectPath (inputs w), localSettings_of w) of
        (Some pp, Some ls) \<Rightarrow>
          w\<lparr>disk := (disk w)(localSettingsPath P pp \<mapsto> File (ConfigJson ls))\<rparr>
      | _ \<Rightarrow> w)"

fun skips :: "bool option \<Rightarrow> bool" where
  "skips None = False"
| "skips (Some b) = b"

fun is_writer :: "middleware \<Rightarrow> bool" where
  "is_writer ProjectSettingsWriterMW = True"
| "is_writer (EnvInfoWriterMW _) = True"
| "is_writer (EnvInfoWriterMW_V3 _) = True"
| "is_writer LocalSettingsWriterMW = True"
| "is_writer _ = False"

fun persist :: "'a pipeline_params \<Rightarrow> middleware \<Rightarrow> world \<Rightarrow> world" where
  "persist P ProjectSettingsWriterMW = persistSettings P"
| "persist P (EnvInfoWriterMW b) = (if skips b then (\<lambda>w. w) else persistEnvV2 P)"
| "persist P (EnvInfoWriterMW_V3 b) = (if skips b then (\<lambda>w. w) else persistEnvV3 P)"
| "persist P LocalSettingsWriterMW = persistLocalSettings P"
| "persist P _ = (\<lambda>w. w)"

definition writer_phases :: "(world \<Rightarrow> world) \<Rightarrow> (process, 'a) phases" where
  "writer_phases f =
     \<lparr>before = (\<lambda>s. (Enter None, s)),
      after = (\<lambda>h r s. (r, s\<lparr>world := f (world s)\<rparr>))\<rparr>"

definition lift_phases :: "(world, 'a) phases \<Rightarrow> (process, 'a) phases" where
  "lift_phases ph = \<lparr>before = lift (before ph), after = (\<lambda>h r. lift (after ph h r))\<rparr>"

text \<open>
  The semantics of each middleware: the error handler, the locker and the writers as
  above, and for every other one (the migrator, the loaders, the question engine, the
  context injector) whatever the parameter \<open>other\<close> gives: any phases over the world.
\<close>

fun sem :: "'a pipeline_params \<Rightarrow> middleware \<Rightarrow> (process, 'a) phases" where
  "sem P ErrorHandlerMW = ErrorHandler_phases"
| "sem P ConcurrentLockerMW = ConcurrentLocker_phases (run_id P)"
| "sem P m = (if is_writer m then writer_phases (persist P m) else lift_phases (other P m))"

fun rejected :: "'a settled \<Rightarrow> bool" where
  "rejected (Rejected _) = True"
| "rejected _ = False"




text \<open>
  The operations of both generations whose dispatched pipeline holds only middleware of
  the active generation (or shared middleware).
\<close>

definition single_generation :: "bool \<Rightarrow> bool \<Rightarrow> operation \<Rightarrow> bool" where
  "single_generation cu isV3 op =
     (case hooks cu (dispatch isV3 op) of
        None \<Rightarrow> False
      | Some mws \<Rightarrow>
          list_all (\<lambda>m. generation_of m = None \<or> generation_of m = Some (active_generation isV3))
            mws)"

text \<open>
  \<open>files_of P pp w W\<close>: the files that the writer \<open>W\<close> has to persist for the hook
  context of the world \<open>w\<close> and the project path \<open>pp\<close>, each with its content.
  \<open>persisted P ws pp w d\<close>: the disk \<open>d\<close> holds every file of the writers \<open>ws\<close> with the
  content taken from the hook context of \<open>w\<close> (the writers are taken to write different
  files).
\<close>

fun files_of :: "'a pipeline_params \<Rightarrow> path \<Rightarrow> world \<Rightarrow> middleware \<Rightarrow> (path \<times> content) list" where
  "files_of P pp w ProjectSettingsWriterMW =
     (case settings_of w of
        None \<Rightarrow> []
      | Some ps \<Rightarrow> [(settingsPath P pp, SettingsJson ps)])"
| "files_of P pp w (EnvInfoWriterMW b) =
     (if skips b then []
      else (case envInfoV2_of w of
              None \<Rightarrow> []
            | Some e \<Rightarrow> [(envConfigPath P (envName e) pp, ConfigJson (config e)),
                        (envStatePath P (envName e) pp, ConfigJson (state e))]))"
| "files_of P pp w (EnvInfoWriterMW_V3 b) =
     (if skips b then []
      else (case envInfoV3_of w of
              None \<Rightarrow> []
            | Some (EnvInfoV3 name cfg st) \<Rightarrow>
                [(envConfigPath P name pp, ConfigJson cfg),
                 (envStatePath P name pp, ConfigJson st)]))"
| "files_of P pp w LocalSettingsWriterMW =
     (case localSettings_of w of
        None \<Rightarrow> []
      | Some ls \<Rightarrow> [(localSettingsPath P pp, ConfigJson ls)])"
| "files_of P pp w _ = []"

fun write_files :: "(path \<times> content) list \<Rightarrow> filesystem \<Rightarrow> filesystem" where
  "write_files [] d = d"
| "write_files ((q, c) # fl) d = write_files fl (d(q \<mapsto> File c))"


section \<open>Sample values\<close>

text \<open>Concrete externals, plugins and worlds, on which the theorems below are run.\<close>

definition sampleSettings :: ProjectSettings where
  "sampleSettings =
     \<lparr>appName = ''myapp'', projectId = ''00000000-0000-0000-0000-000000000000'',
      version = Some ''2.1.0'', isFromSample = Some False, solutionSettings = None,
      programmingLanguage = Some ''typescript''\<rparr>"

definition sampleExternals :: externals where
  "sampleExternals =
     \<lparr>isConfigUnifyEnabled = False,
      isPureExistingApp = (\<lambda>ps. solutionSettings ps = None),
      newProjectSettings = sampleSettings,
      getLocalEnvName = ''local'',
      getDefaultEnvName = ''dev'',
      QuestionAppName_name = ''app-name'',
      ConfigFolderName = ''fx'',
      InputConfigsFolderName = ''configs'',
      StatesFolderName = ''states'',
      BuildFolderName = ''build'',
      AppPackageFolderName = ''appPackage'',
      localSettingsFileName = ''localSettings.json'',
      collaborator_grantPermission = (\<lambda>_ _ _. Resolved (ok [])),
      collaborator_checkPermission = (\<lambda>_ _ _. Resolved (ok [])),
      collaborator_listCollaborator = (\<lambda>_ _ _. Resolved (ok [])),
      getEnvConfigPath = (\<lambda>e pp. pp @ [''.fx'', ''configs'', ''config.'' @ e @ ''.json''])\<rparr>"



definition sampleInputs :: Inputs where
  "sampleInputs =
     \<lparr>platform = CLI, stage = None, projectPath = Some [''home'', ''myapp''], env = Some ''dev'',
      existingAppConfig = None, answers = (\<lambda>_. None)\<rparr>"

definition emptyContext :: CoreHookContext where
  "emptyContext =
     \<lparr>projectSettings = None, solutionV2 = None, solutionV3 = None, contextV2 = None,
      envInfoV2 = None, envInfoV3 = None, localSettings = None\<rparr>"

text \<open>
  A V2 plugin whose local provisioning returns \<open>r\<close> and leaves the local settings object
  it is handed as it is, and whose other methods succeed.
\<close>

definition sampleSolutionV2 :: "json FxResult \<Rightarrow> SolutionV2" where
  "sampleSolutionV2 r =
     \<lparr>solution_name = ''fx-solution-azure'',
      provisionResources_v2 = (\<lambda>_ _ _. Resolved (ok ())),
      deploy_v2 = Some (\<lambda>_ _ _. Resolved (ok ())),
      publishApplication_v2 = (\<lambda>_ _ _. Resolved (ok ())),
      provisionLocalResource_v2 = Some (\<lambda>_ _ ls _. (Inr r, ls)),
      executeUserTask_v2 = Some (\<lambda>_ _ _ _ _. Resolved (ok [])),
      grantPermission_v2 = Some (\<lambda>_ _ _. Resolved (ok [])),
      checkPermission_v2 = Some (\<lambda>_ _ _. Resolved (ok [])),
      listCollaborator_v2 = Some (\<lambda>_ _ _. Resolved (ok [])),
      scaffoldSourceCode_v2 =
        (\<lambda>_ i fs. (Resolved (ok ()),
           (case projectPath i of
              None \<Rightarrow> fs
            | Some pp \<Rightarrow> fs(pp @ [''index.ts''] \<mapsto> File (Text ''// app''))))),
      generateResourceTemplate_v2 = (\<lambda>_ _ fs. (Resolved (ok ()), fs)),
      createEnv_v2 = None\<rparr>"


definition sampleWorld :: "CoreHookContext option \<Rightarrow> filesystem \<Rightarrow> world" where
  "sampleWorld c fs =
     \<lparr>inputs = sampleInputs, ctx = c, currentStage = None, disk = fs,
      globalState = (\<lambda>_. None)\<rparr>"

text \<open>A context as the V2 loaders leave it for a local debug run with plugin outcome \<open>r\<close>.\<close>

definition debugContext :: "json FxResult \<Rightarrow> CoreHookContext" where
  "debugContext r =
     emptyContext\<lparr>projectSettings := Some sampleSettings,
                  solutionV2 := Some (sampleSolutionV2 r),
                  contextV2 := Some (createV2Context sampleSettings)\<rparr>"

text \<open>A project on disk with the configuration and the state of the environment \<open>dev\<close>.\<close>

definition sampleDisk :: filesystem where
  "sampleDisk =
     (\<lambda>_. None)
       ([] \<mapsto> Dir,
        [''home''] \<mapsto> Dir,
        [''home'', ''myapp''] \<mapsto> Dir,
        [''home'', ''myapp'', ''.fx''] \<mapsto> Dir,
        [''home'', ''myapp'', ''.fx'', ''configs''] \<mapsto> Dir,
        [''home'', ''myapp'', ''.fx'', ''states''] \<mapsto> Dir,
        [''home'', ''myapp'', ''.fx'', ''configs'', ''config.dev.json''] \<mapsto>
           File (ConfigJson [(''manifest'', JObj [(''appName'', JString ''myapp'')])]),
        [''home'', ''myapp'', ''.fx'', ''states'', ''state.dev.json''] \<mapsto>
           File (ConfigJson [(''solution'', JObj [(''provisionSucceeded'', JBool True)])]))"

definition sampleFunc :: Func where
  "sampleFunc = \<lparr>namespace = Some ''fx-solution-azure'', func_method = ''addCapability''\<rparr>"

definition sampleEnvInfoV2 :: EnvInfoV2 where
  "sampleEnvInfoV2 = \<lparr>envName = ''dev'', config = [], state = []\<rparr>"




text \<open>Sample pipeline parameters: every middleware that is not modelled lets the chain pass.\<close>

definition sampleParams :: "'a pipeline_params" where
  "sampleParams =
     \<lparr>run_id = 1,
      settingsPath = (\<lambda>pp. pp @ [''.fx'', ''configs'', ''projectSettings.json'']),
      envConfigPath = (\<lambda>e pp. pp @ [''.fx'', ''configs'', ''config.'' @ e @ ''.json'']),
      envStatePath = (\<lambda>e pp. pp @ [''.fx'', ''states'', ''state.'' @ e @ ''.json'']),
      localSettingsPath = (\<lambda>pp. pp @ [''.fx'', ''configs'', ''localSettings.json'']),
      other = (\<lambda>_. \<lparr>before = (\<lambda>w. (Enter None, w)), after = (\<lambda>h r w. (r, w))\<rparr>)\<rparr>"

definition sampleProcess :: "handles \<Rightarrow> process" where
  "sampleProcess hs =
     \<lparr>world = sampleWorld
        (Some (emptyContext\<lparr>projectSettings := Some sampleSettings,
                            envInfoV2 := Some sampleEnvInfoV2\<rparr>)) sampleDisk,
      held = hs\<rparr>"



text \<open>
  A context as the V2 loaders leave it before a publish: the V2 plugin, the V2 context
  and the V2 environment are loaded, nothing of V3 is. The plugin refuses to publish.
\<close>

definition publishContext :: CoreHookContext where
  "publishContext =
     (debugContext (success []))
       \<lparr>solutionV2 := Some ((sampleSolutionV2 (success []))
          \<lparr>publishApplication_v2 :=
             (\<lambda>_ _ _. Resolved (err (PluginError ''manifest not validated'')))\<rparr>),
        envInfoV2 := Some sampleEnvInfoV2\<rparr>"


section \<open>Unfolding the definitions\<close>




lemmas pipeline_defs = call_method_def ErrorHandler_phases_def ConcurrentLocker_phases_def
  writer_phases_def lift_phases_def lift_def acquire_def release_def assembleError_def
  persistSettings_def persistEnvV2_def persistEnvV3_def persistLocalSettings_def
  settings_of_def localSettings_of_def envInfoV2_of_def envInfoV3_of_def

lemmas process_defs = sampleParams_def sampleProcess_def sampleWorld_def sampleInputs_def
  emptyContext_def sampleEnvInfoV2_def sampleSettings_def


section \<open>Properties of the declared pipelines\<close>

text \<open>
  C4. For every mutating operation (provision, deploy, publish), in either API generation
  and whatever the configuration flag, the decorator declares exactly ten middleware
  whose components are, in order, ErrorHandler, ConcurrencyLock, ProjectMigrator,
  ProjectSettingsLoader, EnvironmentLoader, SolutionResolver, QuestionEngine and
  ContextInjector (which act before the decorated target operation) followed by
  ProjectSettingsWriter and EnvironmentWriter (which act after it).
\<close>

theorem mutating_pipeline_order:
  assumes "mutating op"
  shows "\<exists>mws. hooks cu (dispatch isV3 op) = Some mws
           \<and> map role_of mws = before_target @ after_target"
  using assms
  by (cases op; cases isV3) (simp_all add: mutating_def before_target_def after_target_def)

theorem mutating_pipeline_order_witness:
  "mutating Op_provisionResources
   \<and> (\<exists>mws. hooks False (dispatch False Op_provisionResources) = Some mws
        \<and> map role_of mws = before_target @ after_target)
   \<and> hooks False (dispatch False Op_provisionResources) = Some
        [ErrorHandlerMW, ConcurrentLockerMW, ProjectMigratorMW, ProjectSettingsLoaderMW,
         EnvInfoLoaderMW False, SolutionLoaderMW, QuestionModelMW, ContextInjectorMW,
         ProjectSettingsWriterMW, EnvInfoWriterMW None]"
proof -
  have m: "mutating Op_provisionResources"
    by (simp add: mutating_def)
  from mutating_pipeline_order [OF m, of False False] show ?thesis
    using m by simp
qed

text \<open>
  C1. The dispatcher of every operation of both generations selects one method by the
  flag, and under V2 every pipeline holds V2 middleware only. Under V3 this holds for
  create, provision, deploy and the three permission operations, but not for publish and
  not for executeUserTask: the decorator of \<^verbatim>\<open>publishApplicationV3\<close> lists the V2
  environment loader, the V2 solution loader and the V2 environment writer, and the
  decorator of \<^verbatim>\<open>executeUserTaskV3\<close> lists the V2 environment writer beside the V3
  loaders. The body of \<^verbatim>\<open>publishApplicationV3\<close> reads \<^verbatim>\<open>ctx.solutionV3\<close> and
  \<^verbatim>\<open>ctx.envInfoV3\<close>, which V2 loaders do not set: on the context they leave, the V3
  publish returns success without calling any plugin, where the V2 publish returns the
  error of the plugin.
\<close>

theorem publish_V3_declares_V2_middleware:
  "list_all (\<lambda>cu.
       list_all (single_generation cu False)
         [Op_createProject, Op_provisionResources, Op_deployArtifacts, Op_publishApplication,
          Op_executeUserTask, Op_grantPermission, Op_checkPermission, Op_listCollaborator]
     \<and> list_all (single_generation cu True)
         [Op_createProject, Op_provisionResources, Op_deployArtifacts,
          Op_grantPermission, Op_checkPermission, Op_listCollaborator]
     \<and> \<not> single_generation cu True Op_publishApplication
     \<and> \<not> single_generation cu True Op_executeUserTask
     \<and> map generation_of (the (hooks cu (dispatch True Op_publishApplication)))
         = [None, None, None, None, Some V2, Some V2, None, None, None, Some V2]
     \<and> map generation_of (the (hooks cu (dispatch True Op_executeUserTask)))
         = [None, None, None, None, Some V3, None, Some V3, None, None, None, Some V2])
     [False, True]
   \<and> fst (publishApplication True (sampleWorld (Some publishContext) sampleDisk))
       = Resolved (ok ())
   \<and> fst (publishApplication False (sampleWorld (Some publishContext) sampleDisk))
       = Resolved (err (PluginError ''manifest not validated''))"
  by (simp add: single_generation_def active_generation_def publishApplication_def
      publishApplicationV3_def publishApplicationV2_def publishContext_def debugContext_def
      emptyContext_def sampleWorld_def setStage_def Let_def)


section \<open>Properties of the method bodies\<close>

subsection \<open>Copying an environment\<close>

lemma copy_file_frame:
  assumes "fs src = Some (File c)" and "copy src dest fs = Inr fs'"
  shows "fs' dest = Some (File c)"
    and "\<not> prefix p dest \<Longrightarrow> fs' p = fs p"
    and "p \<noteq> dest \<Longrightarrow> is_file (fs p) \<or> is_file (fs' p) \<Longrightarrow> fs' p = fs p"
  using assms
  by (auto simp: copy_def ensureDir_def list_ex_iff split: if_splits sum.splits
      dest: prefix_order.trans[OF _ prefixeq_butlast])

lemma copy_file_succeeds:
  assumes "fs src = Some (File c)" and "copyable src dest fs"
  shows "\<exists>fs'. copy src dest fs = Inr fs'"
  using assms by (simp add: copy_def ensureDir_def copyable_def)

text \<open>
  C8. \<^verbatim>\<open>createEnvCopy\<close>, for any source and target environment names, when the source
  environment's config path holds a file: if nothing stands in the way of the copy it
  succeeds; when it succeeds the target environment's config path holds the same content
  as the source; no file other than the target config file is created or modified (so
  neither the target's state file nor any file of another environment), and nothing
  outside the target config path and its ancestor directories changes at all; when it
  fails nothing changes.
\<close>

theorem createEnvCopy_copies_only_config:
  assumes pp: "projectPath (inputs w) = Some pp"
    and src: "disk w (getEnvConfigPath E sourceEnvName pp) = Some (File c)"
    and run: "createEnvCopy E targetEnvName sourceEnvName w = (r, w')"
  shows "(copyable (getEnvConfigPath E sourceEnvName pp) (getEnvConfigPath E targetEnvName pp)
            (disk w) \<longrightarrow> r = Resolved (ok ()))
       \<and> (r = Resolved (ok ())
            \<longrightarrow> disk w' (getEnvConfigPath E targetEnvName pp) = Some (File c))
       \<and> (\<forall>p. p \<noteq> getEnvConfigPath E targetEnvName pp
              \<longrightarrow> is_file (disk w p) \<or> is_file (disk w' p) \<longrightarrow> disk w' p = disk w p)
       \<and> (\<forall>p. \<not> prefix p (getEnvConfigPath E targetEnvName pp) \<longrightarrow> disk w' p = disk w p)
       \<and> (r \<noteq> Resolved (ok ()) \<longrightarrow> w' = w)
       \<and> inputs w' = inputs w \<and> ctx w' = ctx w"
proof (cases "copy (getEnvConfigPath E sourceEnvName pp) (getEnvConfigPath E targetEnvName pp)
                (disk w)")
  case (Inl e)
  then have "r = Resolved (err (CopyFileError e))" "w' = w"
    using pp run by (simp_all add: createEnvCopy_def)
  moreover have "\<not> copyable (getEnvConfigPath E sourceEnvName pp)
                    (getEnvConfigPath E targetEnvName pp) (disk w)"
    using copy_file_succeeds [of "disk w" "getEnvConfigPath E sourceEnvName pp" c
        "getEnvConfigPath E targetEnvName pp"] src Inl
    by auto
  ultimately show ?thesis by simp
next
  case (Inr fs')
  then have r: "r = Resolved (ok ())" and w': "w' = w\<lparr>disk := fs'\<rparr>"
    using pp run by (simp_all add: createEnvCopy_def)
  from copy_file_frame [of "disk w" "getEnvConfigPath E sourceEnvName pp" c
      "getEnvConfigPath E targetEnvName pp" fs', OF src Inr] show ?thesis
    by (simp add: r w')
qed

theorem createEnvCopy_copies_only_config_witness:
  "projectPath (inputs (sampleWorld None sampleDisk)) = Some [''home'', ''myapp'']
   \<and> fst (createEnvCopy sampleExternals ''staging'' ''dev'' (sampleWorld None sampleDisk))
       = Resolved (ok ())
   \<and> disk (snd (createEnvCopy sampleExternals ''staging'' ''dev'' (sampleWorld None sampleDisk)))
        [''home'', ''myapp'', ''.fx'', ''configs'', ''config.staging.json'']
       = Some (File (ConfigJson [(''manifest'', JObj [(''appName'', JString ''myapp'')])]))
   \<and> disk (snd (createEnvCopy sampleExternals ''staging'' ''dev'' (sampleWorld None sampleDisk)))
        [''home'', ''myapp'', ''.fx'', ''states'', ''state.staging.json'']
       = None"
proof -
  let ?w = "sampleWorld None sampleDisk"
  let ?run = "createEnvCopy sampleExternals ''staging'' ''dev'' ?w"
  let ?tgt = "[''home'', ''myapp'', ''.fx'', ''configs'', ''config.staging.json'']"
  let ?st = "[''home'', ''myapp'', ''.fx'', ''states'', ''state.staging.json'']"
  have pp: "projectPath (inputs ?w) = Some [''home'', ''myapp'']"
    by (simp add: sampleWorld_def sampleInputs_def)
  have src: "disk ?w (getEnvConfigPath sampleExternals ''dev'' [''home'', ''myapp''])
               = Some (File (ConfigJson [(''manifest'', JObj [(''appName'', JString ''myapp'')])]))"
    by (simp add: sampleWorld_def sampleExternals_def sampleDisk_def)
  have cp: "copyable (getEnvConfigPath sampleExternals ''dev'' [''home'', ''myapp''])
              (getEnvConfigPath sampleExternals ''staging'' [''home'', ''myapp'']) (disk ?w)"
    by (simp add: sampleWorld_def sampleExternals_def sampleDisk_def copyable_def)
  have tgt: "getEnvConfigPath sampleExternals ''staging'' [''home'', ''myapp''] = ?tgt"
    by (simp add: sampleExternals_def)
  have st: "disk ?w ?st = None"
    by (simp add: sampleWorld_def sampleDisk_def)
  have np: "\<not> prefix ?st ?tgt"
    by simp
  have run: "?run = (fst ?run, snd ?run)" by simp
  note main = createEnvCopy_copies_only_config [OF pp src run]
  from main cp have r: "fst ?run = Resolved (ok ())" by blast
  from main r tgt have t: "disk (snd ?run) ?tgt
      = Some (File (ConfigJson [(''manifest'', JObj [(''appName'', JString ''myapp'')])]))"
    by metis
  from main np tgt have "disk (snd ?run) ?st = disk ?w ?st" by metis
  with st have s: "disk (snd ?run) ?st = None" by simp
  from pp r t s show ?thesis by blast
qed



subsection \<open>Absent context fields\<close>

lemmas field_defs = field_solutionV2_def field_solutionV3_def field_contextV2_def
  field_envInfoV2_def field_envInfoV3_def

lemma permissionV3_absent:
  "absent (\<lambda>c. defined (contextV2 c) \<and> defined (envInfoV3 c)) w
     \<Longrightarrow> fst (permissionV3 st f w)
          = Resolved (err (ObjectIsUndefinedError
              (if falsy_path (projectPath (inputs w)) then ''projectPath''
               else ''ctx, contextV2, envInfoV3'')))"
  by (auto simp: absent_def defined_def permissionV3_def setStage_def Let_def split: option.splits)

text \<open>
  C9 (amended). When a context field the target operation needs is absent, these
  operations return an \<^verbatim>\<open>ObjectIsUndefinedError\<close> failure and never success, and the
  message of the error is as follows.
  \<^verbatim>\<open>publishApplication\<close> under V2 (solution, shared context, environment info) and
  \<^verbatim>\<open>executeUserTask\<close> for a routed function (solution and environment info of the active
  generation; an absent shared context is created, not reported) name the first missing
  field. \<^verbatim>\<open>deployArtifacts\<close> under V2 (solution, shared context, environment info) and
  \<^verbatim>\<open>localDebug\<close> under V2 (solution, shared context) name the first missing field once
  the project settings are there, and return a fixed text without them; a pure existing
  app is refused by \<^verbatim>\<open>deployArtifacts\<close> with
  \<^verbatim>\<open>OperationNotSupportedForExistingAppError\<close> before the fields are looked at.
  \<^verbatim>\<open>provisionResources\<close> under V2 returns the fixed text \<open>Provision input stuff\<close>, and
  \<^verbatim>\<open>grantPermission\<close>, \<^verbatim>\<open>checkPermission\<close> and \<^verbatim>\<open>listCollaborator\<close> under V3 (shared
  context, environment info) the fixed text \<open>ctx, contextV2, envInfoV3\<close> (after the
  project path, whose absence they report first): these do not tell which field is
  missing.
\<close>

theorem absent_context_is_consistency_error:
  "(absent (\<lambda>c. defined (solutionV2 c) \<and> defined (contextV2 c) \<and> defined (envInfoV2 c)) w
      \<longrightarrow> fst (provisionResources False w)
            = Resolved (err (ObjectIsUndefinedError ''Provision input stuff''))
        \<and> (\<exists>n. missing w [field_solutionV2, field_contextV2, field_envInfoV2] = Some n
               \<and> fst (publishApplication False w)
                   = Resolved (err (ObjectIsUndefinedError (''publish input stuff: '' @ n))))
        \<and> (if settings_of w = None
            then fst (deployArtifacts E False w)
                   = Resolved (err (ObjectIsUndefinedError ''deploy input stuff''))
            else if pureExisting E w
            then fst (deployArtifacts E False w)
                   = Resolved (err (OperationNotSupportedForExistingAppError ''deploy''))
            else (\<exists>n. missing w [field_solutionV2, field_contextV2, field_envInfoV2] = Some n
                    \<and> fst (deployArtifacts E False w)
                        = Resolved (err (ObjectIsUndefinedError (''Deploy input stuff: '' @ n))))))
   \<and> (absent (\<lambda>c. defined (projectSettings c) \<and> defined (solutionV2 c) \<and> defined (contextV2 c)) w
      \<longrightarrow> (if settings_of w = None
           then fst (localDebug E False w)
                  = Resolved (err (ObjectIsUndefinedError ''local debug input stuff''))
           else (\<exists>n. missing w [field_solutionV2, field_contextV2] = Some n
                   \<and> fst (localDebug E False w)
                       = Resolved (err (ObjectIsUndefinedError
                           (''localDebug input stuff ('' @ n @ '')''))))))
   \<and> (routed func \<and> absent (\<lambda>c. defined (solutionV2 c) \<and> defined (envInfoV2 c)) w
      \<longrightarrow> (\<exists>n. missing w [field_solutionV2, field_envInfoV2] = Some n
             \<and> fst (executeUserTask E False func w)
                 = Resolved (err (ObjectIsUndefinedError (''executeUserTask input stuff: '' @ n)))))
   \<and> (routed func \<and> absent (\<lambda>c. defined (solutionV3 c) \<and> defined (envInfoV3 c)) w
      \<longrightarrow> (\<exists>n. missing w [field_solutionV3, field_envInfoV3] = Some n
             \<and> fst (executeUserTask E True func w)
                 = Resolved (err (ObjectIsUndefinedError (''executeUserTask input stuff: '' @ n)))))
   \<and> (absent (\<lambda>c. defined (contextV2 c) \<and> defined (envInfoV3 c)) w
      \<longrightarrow> list_all (\<lambda>operation. fst (operation E True w)
             = Resolved (err (ObjectIsUndefinedError
                 (if falsy_path (projectPath (inputs w)) then ''projectPath''
                  else ''ctx, contextV2, envInfoV3''))))
           [grantPermission, checkPermission, listCollaborator])"
proof (intro conjI impI)
  assume a: "absent (\<lambda>c. defined (solutionV2 c) \<and> defined (contextV2 c) \<and> defined (envInfoV2 c)) w"
  show "fst (provisionResources False w)
          = Resolved (err (ObjectIsUndefinedError ''Provision input stuff''))"
    using a by (auto simp: absent_def defined_def provisionResources_def provisionResourcesV2_def
        setStage_def Let_def split: option.splits)
  show "\<exists>n. missing w [field_solutionV2, field_contextV2, field_envInfoV2] = Some n
          \<and> fst (publishApplication False w)
              = Resolved (err (ObjectIsUndefinedError (''publish input stuff: '' @ n)))"
    using a by (auto simp: absent_def defined_def publishApplication_def publishApplicationV2_def
        setStage_def Let_def missing_def field_defs template_def split: option.splits)
  show "if settings_of w = None
        then fst (deployArtifacts E False w)
               = Resolved (err (ObjectIsUndefinedError ''deploy input stuff''))
        else if pureExisting E w
        then fst (deployArtifacts E False w)
               = Resolved (err (OperationNotSupportedForExistingAppError ''deploy''))
        else (\<exists>n. missing w [field_solutionV2, field_contextV2, field_envInfoV2] = Some n
                \<and> fst (deployArtifacts E False w)
                    = Resolved (err (ObjectIsUndefinedError (''Deploy input stuff: '' @ n))))"
    using a by (auto simp: absent_def defined_def pureExisting_def deployArtifacts_def
        deployArtifactsV2_def setStage_def Let_def missing_def field_defs template_def
        settings_of_def split: option.splits)
next
  assume "absent (\<lambda>c. defined (projectSettings c) \<and> defined (solutionV2 c) \<and> defined (contextV2 c)) w"
  then show "if settings_of w = None
       then fst (localDebug E False w)
              = Resolved (err (ObjectIsUndefinedError ''local debug input stuff''))
       else (\<exists>n. missing w [field_solutionV2, field_contextV2] = Some n
               \<and> fst (localDebug E False w)
                   = Resolved (err (ObjectIsUndefinedError
                       (''localDebug input stuff ('' @ n @ '')''))))"
    by (auto simp: absent_def defined_def localDebug_def localDebugV2_def setStage_def Let_def
        missing_def field_defs template_def settings_of_def split: option.splits)
next
  assume "routed func \<and> absent (\<lambda>c. defined (solutionV2 c) \<and> defined (envInfoV2 c)) w"
  then show "\<exists>n. missing w [field_solutionV2, field_envInfoV2] = Some n
             \<and> fst (executeUserTask E False func w)
                 = Resolved (err (ObjectIsUndefinedError (''executeUserTask input stuff: '' @ n)))"
    by (auto simp: absent_def defined_def executeUserTask_def executeUserTaskV2_def setStage_def
        Let_def missing_def field_defs template_def split: option.splits)
next
  assume "routed func \<and> absent (\<lambda>c. defined (solutionV3 c) \<and> defined (envInfoV3 c)) w"
  then show "\<exists>n. missing w [field_solutionV3, field_envInfoV3] = Some n
             \<and> fst (executeUserTask E True func w)
                 = Resolved (err (ObjectIsUndefinedError (''executeUserTask input stuff: '' @ n)))"
    by (auto simp: absent_def defined_def executeUserTask_def executeUserTaskV3_def setStage_def
        Let_def missing_def field_defs template_def split: option.splits)
next
  assume a: "absent (\<lambda>c. defined (contextV2 c) \<and> defined (envInfoV3 c)) w"
  show "list_all (\<lambda>operation. fst (operation E True w)
             = Resolved (err (ObjectIsUndefinedError
                 (if falsy_path (projectPath (inputs w)) then ''projectPath''
                  else ''ctx, contextV2, envInfoV3''))))
           [grantPermission, checkPermission, listCollaborator]"
    using permissionV3_absent [OF a]
    by (simp add: grantPermission_def grantPermissionV3_def checkPermission_def
        checkPermissionV3_def listCollaborator_def listCollaboratorV3_def)
qed

theorem absent_context_is_consistency_error_witness:
  "absent (\<lambda>c. defined (solutionV2 c) \<and> defined (contextV2 c) \<and> defined (envInfoV2 c))
     (sampleWorld (Some (debugContext (success []))) sampleDisk)
   \<and> absent (\<lambda>c. defined (projectSettings c) \<and> defined (solutionV2 c) \<and> defined (contextV2 c))
     (sampleWorld (Some (emptyContext\<lparr>projectSettings := Some sampleSettings\<rparr>)) sampleDisk)
   \<and> absent (\<lambda>c. defined (contextV2 c) \<and> defined (envInfoV3 c))
     (sampleWorld (Some emptyContext) sampleDisk)
   \<and> routed sampleFunc
   \<and> fst (provisionResources False (sampleWorld (Some (debugContext (success []))) sampleDisk))
       = Resolved (err (ObjectIsUndefinedError ''Provision input stuff''))
   \<and> fst (publishApplication False (sampleWorld (Some (debugContext (success []))) sampleDisk))
       = Resolved (err (ObjectIsUndefinedError ''publish input stuff: ctx.envInfoV2''))
   \<and> fst (deployArtifacts (sampleExternals\<lparr>isPureExistingApp := (\<lambda>_. False)\<rparr>) False
        (sampleWorld (Some (debugContext (success []))) sampleDisk))
       = Resolved (err (ObjectIsUndefinedError ''Deploy input stuff: ctx.envInfoV2''))
   \<and> fst (localDebug sampleExternals False
        (sampleWorld (Some (emptyContext\<lparr>projectSettings := Some sampleSettings\<rparr>)) sampleDisk))
       = Resolved (err (ObjectIsUndefinedError ''localDebug input stuff (ctx.solutionV2)''))
   \<and> fst (executeUserTask sampleExternals False sampleFunc
        (sampleWorld (Some (debugContext (success []))) sampleDisk))
       = Resolved (err (ObjectIsUndefinedError ''executeUserTask input stuff: ctx.envInfoV2''))
   \<and> fst (executeUserTask sampleExternals True sampleFunc
        (sampleWorld (Some emptyContext) sampleDisk))
       = Resolved (err (ObjectIsUndefinedError ''executeUserTask input stuff: ctx.solutionV3''))
   \<and> fst (grantPermission sampleExternals True (sampleWorld (Some emptyContext) sampleDisk))
       = Resolved (err (ObjectIsUndefinedError ''ctx, contextV2, envInfoV3''))"
proof -
  let ?w = "sampleWorld (Some (debugContext (success []))) sampleDisk"
  let ?v = "sampleWorld (Some (emptyContext\<lparr>projectSettings := Some sampleSettings\<rparr>)) sampleDisk"
  let ?u = "sampleWorld (Some emptyContext) sampleDisk"
  let ?E = "sampleExternals\<lparr>isPureExistingApp := (\<lambda>_. False)\<rparr>"
  have a1: "absent (\<lambda>c. defined (solutionV2 c) \<and> defined (contextV2 c) \<and> defined (envInfoV2 c)) ?w"
    and a2: "absent (\<lambda>c. defined (projectSettings c) \<and> defined (solutionV2 c)
               \<and> defined (contextV2 c)) ?v"
    and a3: "absent (\<lambda>c. defined (contextV2 c) \<and> defined (envInfoV3 c)) ?u"
    and a4: "absent (\<lambda>c. defined (solutionV2 c) \<and> defined (envInfoV2 c)) ?w"
    and a5: "absent (\<lambda>c. defined (solutionV3 c) \<and> defined (envInfoV3 c)) ?u"
    by (simp_all add: absent_def defined_def sampleWorld_def emptyContext_def debugContext_def)
  have r: "routed sampleFunc"
    by (simp add: routed_def sampleFunc_def)
  have m3: "missing ?w [field_solutionV2, field_contextV2, field_envInfoV2] = Some ''ctx.envInfoV2''"
    and m2: "missing ?v [field_solutionV2, field_contextV2] = Some ''ctx.solutionV2''"
    and m4: "missing ?w [field_solutionV2, field_envInfoV2] = Some ''ctx.envInfoV2''"
    and m5: "missing ?u [field_solutionV3, field_envInfoV3] = Some ''ctx.solutionV3''"
    by (simp_all add: missing_def field_defs sampleWorld_def emptyContext_def debugContext_def)
  have s: "settings_of ?w \<noteq> None" "settings_of ?v \<noteq> None"
    by (simp_all add: settings_of_def sampleWorld_def debugContext_def)
  have np: "\<not> pureExisting ?E ?w"
    by (simp add: pureExisting_def sampleWorld_def debugContext_def)
  have fp: "\<not> falsy_path (projectPath (inputs ?u))"
    by (simp add: falsy_path_def sampleWorld_def sampleInputs_def)
  note main = absent_context_is_consistency_error
  from main [of ?w ?E sampleFunc] a1 s np m3
  have p1: "fst (provisionResources False ?w)
       = Resolved (err (ObjectIsUndefinedError ''Provision input stuff''))"
    and p2: "fst (publishApplication False ?w)
       = Resolved (err (ObjectIsUndefinedError ''publish input stuff: ctx.envInfoV2''))"
    and p3: "fst (deployArtifacts ?E False ?w)
       = Resolved (err (ObjectIsUndefinedError ''Deploy input stuff: ctx.envInfoV2''))"
    by auto
  from main [of ?v sampleExternals sampleFunc] a2 s m2
  have p4: "fst (localDebug sampleExternals False ?v)
       = Resolved (err (ObjectIsUndefinedError ''localDebug input stuff (ctx.solutionV2)''))"
    by auto
  from main [of ?w sampleExternals sampleFunc] a4 r m4
  have p5: "fst (executeUserTask sampleExternals False sampleFunc ?w)
       = Resolved (err (ObjectIsUndefinedError ''executeUserTask input stuff: ctx.envInfoV2''))"
    by auto
  from main [of ?u sampleExternals sampleFunc] a5 a3 r m5 fp
  have p6: "fst (executeUserTask sampleExternals True sampleFunc ?u)
       = Resolved (err (ObjectIsUndefinedError ''executeUserTask input stuff: ctx.solutionV3''))"
    and p7: "fst (grantPermission sampleExternals True ?u)
       = Resolved (err (ObjectIsUndefinedError ''ctx, contextV2, envInfoV3''))"
    by auto
  from a1 a2 a3 r p1 p2 p3 p4 p5 p6 p7 show ?thesis by blast
qed

theorem absent_context_counterexample:
  "absent (\<lambda>c. defined (solutionV3 c) \<and> defined (contextV2 c) \<and> defined (envInfoV3 c))
     (sampleWorld (Some emptyContext) sampleDisk)
   \<and> fst (provisionResources True (sampleWorld (Some emptyContext) sampleDisk)) = Resolved (ok ())
   \<and> fst (deployArtifacts sampleExternals True (sampleWorld (Some emptyContext) sampleDisk))
       = Resolved (ok ())
   \<and> fst (publishApplication True (sampleWorld (Some emptyContext) sampleDisk)) = Resolved (ok ())
   \<and> contextV2 (emptyContext\<lparr>solutionV2 := Some (sampleSolutionV2 (success [])),
                              envInfoV2 := Some sampleEnvInfoV2\<rparr>) = None
   \<and> fst (executeUserTask sampleExternals False sampleFunc
        (sampleWorld (Some (emptyContext\<lparr>solutionV2 := Some (sampleSolutionV2 (success [])),
                                         envInfoV2 := Some sampleEnvInfoV2\<rparr>)) sampleDisk))
       = Resolved (ok [])
   \<and> solutionV2 (emptyContext\<lparr>projectSettings := Some sampleSettings\<rparr>) = None
   \<and> fst (deployArtifacts sampleExternals False
        (sampleWorld (Some (emptyContext\<lparr>projectSettings := Some sampleSettings\<rparr>)) sampleDisk))
       = Resolved (err (OperationNotSupportedForExistingAppError ''deploy''))
   \<and> fst (provisionResources False (sampleWorld (Some emptyContext) sampleDisk))
       = Resolved (err (ObjectIsUndefinedError ''Provision input stuff''))
   \<and> fst (provisionResources False
        (sampleWorld (Some (debugContext (success []))) sampleDisk))
       = Resolved (err (ObjectIsUndefinedError ''Provision input stuff''))
   \<and> missing (sampleWorld (Some emptyContext) sampleDisk)
        [field_solutionV2, field_contextV2, field_envInfoV2] = Some ''ctx.solutionV2''
   \<and> missing (sampleWorld (Some (debugContext (success []))) sampleDisk)
        [field_solutionV2, field_contextV2, field_envInfoV2] = Some ''ctx.envInfoV2''"
  by (simp add: absent_def defined_def sampleWorld_def emptyContext_def provisionResources_def
      provisionResourcesV3_def provisionResourcesV2_def setStage_def executeUserTask_def
      executeUserTaskV2_def routed_def sampleFunc_def sampleSolutionV2_def sampleExternals_def
      sampleInputs_def deployArtifacts_def deployArtifactsV2_def deployArtifactsV3_def
      publishApplication_def publishApplicationV3_def sampleSettings_def sampleEnvInfoV2_def
      debugContext_def missing_def field_defs)


subsection \<open>Creating a project\<close>









section \<open>Properties of the pipeline runs\<close>

subsection \<open>No fault escapes a hooked method\<close>

lemma ErrorHandler_outermost:
  "fst (run_pipeline (sem P) (ErrorHandlerMW # ms) target s)
     = (case fst (run_pipeline (sem P) ms target s) of
          (Rejected t, s') \<Rightarrow> (Resolved (err (assembleError t)), s')
        | (Resolved x, s') \<Rightarrow> (Resolved x, s'))"
  by (simp add: ErrorHandler_phases_def split: prod.splits settled.splits)

lemma hooks_start_with_ErrorHandler:
  "hooks cu m = Some mws \<Longrightarrow> \<exists>ms. mws = ErrorHandlerMW # ms \<and> ErrorHandlerMW \<notin> set ms"
  by (cases m) auto

text \<open>
  C2 (amended). Every method of \<^verbatim>\<open>FxCore\<close> that declares a pipeline declares
  \<^verbatim>\<open>ErrorHandlerMW\<close> as its first, outermost middleware, and nowhere else; a call
  through the pipeline never rejects, whatever the target operation and the other
  middleware do: a fault that the target or a middleware inside the error handler
  throws, and that reaches the error handler, is returned as a failure result (a thrown
  \<^verbatim>\<open>FxError\<close> as it is, anything else as a system error), a result that reaches the error
  handler is returned as it is, and the error handler leaves the state as it finds it.
  (A method that declares no pipeline, such as \<^verbatim>\<open>buildArtifacts\<close>, is not covered.)
\<close>

theorem hooked_methods_never_reject:
  assumes "hooks cu m = Some mws"
  shows "\<exists>ms. mws = ErrorHandlerMW # ms \<and> ErrorHandlerMW \<notin> set ms
      \<and> call_method cu (sem P) m target s
          = (case fst (run_pipeline (sem P) ms target s) of
               (Rejected (ThrownFx e), s') \<Rightarrow> (Resolved (err e), s')
             | (Rejected (ThrownJs e), s') \<Rightarrow> (Resolved (err (SystemError e)), s')
             | (Resolved x, s') \<Rightarrow> (Resolved x, s'))
      \<and> \<not> rejected (fst (call_method cu (sem P) m target s))
      \<and> run_pipeline (sem P) [ErrorHandlerMW] (\<lambda>s. (Rejected (ThrownFx e), s)) s
          = ((Resolved (err e), s), [BeforeOf ErrorHandlerMW, TargetRun, AfterOf ErrorHandlerMW])
      \<and> run_pipeline (sem P) [ErrorHandlerMW] (\<lambda>s. (Rejected (ThrownJs j), s)) s
          = ((Resolved (err (SystemError j)), s),
             [BeforeOf ErrorHandlerMW, TargetRun, AfterOf ErrorHandlerMW])"
proof -
  from assms obtain ms where ms: "mws = ErrorHandlerMW # ms" "ErrorHandlerMW \<notin> set ms"
    using hooks_start_with_ErrorHandler by blast
  have c: "call_method cu (sem P) m target s
          = (case fst (run_pipeline (sem P) ms target s) of
               (Rejected (ThrownFx e), s') \<Rightarrow> (Resolved (err e), s')
             | (Rejected (ThrownJs e), s') \<Rightarrow> (Resolved (err (SystemError e)), s')
             | (Resolved x, s') \<Rightarrow> (Resolved x, s'))"
    using assms ms ErrorHandler_outermost [of P ms target s]
    by (simp add: call_method_def assembleError_def split: prod.splits settled.splits thrown.splits)
  then have r: "\<not> rejected (fst (call_method cu (sem P) m target s))"
    by (simp split: prod.splits settled.splits thrown.splits)
  have x: "run_pipeline (sem P) [ErrorHandlerMW] (\<lambda>s. (Rejected (ThrownFx e), s)) s
          = ((Resolved (err e), s), [BeforeOf ErrorHandlerMW, TargetRun, AfterOf ErrorHandlerMW])"
    "run_pipeline (sem P) [ErrorHandlerMW] (\<lambda>s. (Rejected (ThrownJs j), s)) s
          = ((Resolved (err (SystemError j)), s),
             [BeforeOf ErrorHandlerMW, TargetRun, AfterOf ErrorHandlerMW])"
    by (simp_all add: ErrorHandler_phases_def assembleError_def)
  from ms c r x show ?thesis by blast
qed

theorem hooked_methods_never_reject_witness:
  "hooks False M_provisionResourcesV2 \<noteq> None
   \<and> fst (call_method False (sem sampleParams) M_provisionResourcesV2
        (\<lambda>s. (Rejected (ThrownJs (TypeError ''x is undefined'')), s)) (sampleProcess {}))
       = (Resolved (err (SystemError (TypeError ''x is undefined''))) :: unit settled)
   \<and> fst (call_method False (sem sampleParams) M_grantPermissionV2
        (lift grantPermissionV2) ((sampleProcess {})\<lparr>world := sampleWorld None sampleDisk\<rparr>))
       = Resolved (err (SystemError (TypeError ''ctx is undefined'')))"
proof -
  let ?t = "\<lambda>s :: process. (Rejected (ThrownJs (TypeError ''x is undefined'')) :: unit settled, s)"
  let ?s = "(sampleProcess {})\<lparr>world := sampleWorld None sampleDisk\<rparr>"
  have h: "hooks False M_provisionResourcesV2 = Some
     [ErrorHandlerMW, ConcurrentLockerMW, ProjectMigratorMW, ProjectSettingsLoaderMW,
      EnvInfoLoaderMW False, SolutionLoaderMW, QuestionModelMW, ContextInjectorMW,
      ProjectSettingsWriterMW, EnvInfoWriterMW None]"
    by simp
  have g: "hooks False M_grantPermissionV2 = Some
     [ErrorHandlerMW, ConcurrentLockerMW, ProjectMigratorMW, ProjectSettingsLoaderMW,
      EnvInfoLoaderMW False, SolutionLoaderMW, QuestionModelMW, ContextInjectorMW]"
    by simp
  have inner: "fst (fst (run_pipeline (sem sampleParams)
      [ConcurrentLockerMW, ProjectMigratorMW, ProjectSettingsLoaderMW,
       EnvInfoLoaderMW False, SolutionLoaderMW, QuestionModelMW, ContextInjectorMW,
       ProjectSettingsWriterMW, EnvInfoWriterMW None] ?t (sampleProcess {})))
     = Rejected (ThrownJs (TypeError ''x is undefined''))"
    by (simp add: pipeline_defs process_defs)
  have inner2: "fst (fst (run_pipeline (sem sampleParams)
      [ConcurrentLockerMW, ProjectMigratorMW, ProjectSettingsLoaderMW,
       EnvInfoLoaderMW False, SolutionLoaderMW, QuestionModelMW, ContextInjectorMW]
      (lift grantPermissionV2) ?s))
     = Rejected (ThrownJs (TypeError ''ctx is undefined''))"
    by (simp add: pipeline_defs process_defs grantPermissionV2_def permissionV2_def setStage_def
        falsy_path_def)
  from hooked_methods_never_reject [OF h, of sampleParams ?t "sampleProcess {}"] inner
  have a: "fst (call_method False (sem sampleParams) M_provisionResourcesV2 ?t (sampleProcess {}))
       = Resolved (err (SystemError (TypeError ''x is undefined'')))"
    by (auto split: prod.splits)
  from hooked_methods_never_reject [OF g, of sampleParams "lift grantPermissionV2" ?s] inner2
  have b: "fst (call_method False (sem sampleParams) M_grantPermissionV2
        (lift grantPermissionV2) ?s)
       = Resolved (err (SystemError (TypeError ''ctx is undefined'')))"
    by (auto split: prod.splits)
  from a b show ?thesis by simp
qed

theorem buildArtifacts_rejects_counterexample:
  "hooks False M_buildArtifacts = None
   \<and> fst (call_method False (sem (sampleParams :: unit pipeline_params)) M_buildArtifacts
        (lift buildArtifacts) (sampleProcess {}))
       = Rejected (ThrownFx (TaskNotSupportError Stage_build))"
  by (simp add: call_method_def lift_def buildArtifacts_def)


subsection \<open>The writers run after a failed target\<close>



lemma sem_writer: "is_writer W \<Longrightarrow> sem P W = writer_phases (persist P W)"
  by (cases W) simp_all

lemma writers_run:
  assumes "list_all is_writer ws" and "target s1 = (r, s2)"
  shows "run_pipeline (sem P) ws target s1
     = ((r, s2\<lparr>world := foldr (persist P) ws (world s2)\<rparr>),
        map BeforeOf ws @ [TargetRun] @ map AfterOf (rev ws))"
  using assms
  by (induction ws) (simp_all add: sem_writer writer_phases_def)

text \<open>Writing a list of files, one after the other.\<close>

lemma write_files_other: "p \<notin> fst ` set fl \<Longrightarrow> write_files fl d p = d p"
  by (induction fl d rule: write_files.induct) auto

lemma write_files_found:
  "distinct (map fst fl) \<Longrightarrow> (p, c) \<in> set fl \<Longrightarrow> write_files fl d p = Some (File c)"
proof (induction fl d rule: write_files.induct)
  case (1 d)
  then show ?case by simp
next
  case (2 q c' fl d)
  show ?case
  proof (cases "(p, c) = (q, c')")
    case True
    with 2 have "p \<notin> fst ` set fl" by (auto simp: image_iff)
    with True show ?thesis by (simp add: write_files_other)
  next
    case False
    with 2 show ?thesis by (auto simp: fun_upd_def)
  qed
qed

lemma persist_keeps:
  "inputs (persist P W w) = inputs w" "ctx (persist P W w) = ctx w"
  by (cases W; simp add: persistSettings_def persistEnvV2_def persistEnvV3_def
      persistLocalSettings_def split: option.splits EnvInfoV3.splits)+

lemma persist_disk:
  assumes "projectPath (inputs w) = Some pp"
  shows "disk (persist P W w) = write_files (files_of P pp w W) (disk w)"
  using assms
  by (cases W; simp add: persistSettings_def persistEnvV2_def persistEnvV3_def
      persistLocalSettings_def envInfoV2_of_def envInfoV3_of_def
      split: option.splits EnvInfoV3.splits)

lemma files_of_ctx: "ctx w' = ctx w \<Longrightarrow> files_of P pp w' W = files_of P pp w W"
  by (cases W) (simp_all add: settings_of_def envInfoV2_of_def envInfoV3_of_def
      localSettings_of_def)

lemma persist_all_keeps:
  "inputs (foldr (persist P) ws w) = inputs w" "ctx (foldr (persist P) ws w) = ctx w"
  by (induction ws) (simp_all add: persist_keeps)

lemma persist_all_found:
  assumes pp: "projectPath (inputs w) = Some pp"
  shows "distinct (map fst (concat (map (files_of P pp w) ws)))
     \<Longrightarrow> (p, c) \<in> set (concat (map (files_of P pp w) ws))
     \<Longrightarrow> disk (foldr (persist P) ws w) p = Some (File c)"
proof (induction ws)
  case Nil
  then show ?case by simp
next
  case (Cons W ws)
  let ?w = "foldr (persist P) ws w"
  have "projectPath (inputs ?w) = Some pp"
    using pp by (simp add: persist_all_keeps)
  from persist_disk [OF this, of P W]
  have d: "disk (foldr (persist P) (W # ws) w) = write_files (files_of P pp w W) (disk ?w)"
    by (simp add: files_of_ctx [OF persist_all_keeps(2)])
  show ?case
  proof (cases "(p, c) \<in> set (files_of P pp w W)")
    case True
    with Cons.prems show ?thesis unfolding d by (auto intro: write_files_found)
  next
    case False
    with Cons.prems have in': "(p, c) \<in> set (concat (map (files_of P pp w) ws))" by auto
    then have "p \<in> fst ` set (concat (map (files_of P pp w) ws))" by force
    with Cons.prems(1) have "p \<notin> fst ` set (files_of P pp w W)" by auto
    with Cons.IH [OF _ in'] Cons.prems(1) show ?thesis
      unfolding d by (simp add: write_files_other)
  qed
qed









subsection \<open>Partial success of local provisioning\<close>

lemma localDebugV2_inputs:
  "projectPath (inputs (snd (localDebugV2 E w))) = projectPath (inputs w)"
  by (simp add: localDebugV2_def setStage_def Let_def
      split: option.splits prod.splits sum.splits FxResult.splits)

text \<open>
  C10 (amended). When the solution's local-resource provisioning returns the
  \<^verbatim>\<open>partialSuccess\<close> outcome with a partial output and an error, \<^verbatim>\<open>localDebugV2\<close>
  stores the partial output into the context's local settings and returns the error as a
  plain failure result: the outcome is not preserved as a three-way result, for the
  \<^verbatim>\<open>failure\<close> outcome with that error gives the same result, and only the local settings
  of the context tell the two apart (after a failure they are the object that was handed
  to the plugin, as the plugin left it). A \<^verbatim>\<open>success\<close> stores its output and returns
  success. The writers of the declared pipeline of \<^verbatim>\<open>localDebugV2\<close> are
  \<^verbatim>\<open>ProjectSettingsWriterMW\<close>, the environment writer and \<^verbatim>\<open>LocalSettingsWriterMW\<close>; they
  hand the result of \<^verbatim>\<open>localDebugV2\<close> on as it is, and after a partial success they
  leave the partial output in the local settings file (the writers are taken to write
  different files).
\<close>

theorem localDebugV2_partial_success:
  assumes c: "ctx w = Some c"
    and ps: "projectSettings c = Some ps"
    and sol: "solutionV2 c = Some sol"
    and cx: "contextV2 c = Some cx"
    and f: "provisionLocalResource_v2 sol = Some f"
    and call: "f cx ((inputs w)\<lparr>stage := Some Stage_debug\<rparr>)
                 (case localSettings c of None \<Rightarrow> [] | Some l \<Rightarrow> l)
                 (if isConfigUnifyEnabled E then map_option setLocalDebug (envInfoV2 c)
                  else envInfoV2 c) = (outcome, ls')"
    and pp: "projectPath (inputs w) = Some pp"
    and s: "world s = w"
    and ws: "ws = [ProjectSettingsWriterMW, EnvInfoWriterMW (Some (\<not> cu)), LocalSettingsWriterMW]"
  shows "(outcome = Inr (partialSuccess out e)
            \<longrightarrow> fst (localDebugV2 E w) = Resolved (err e)
              \<and> localSettings_of (snd (localDebugV2 E w)) = Some out)
       \<and> (outcome = Inr (failure e)
            \<longrightarrow> fst (localDebugV2 E w) = Resolved (err e)
              \<and> localSettings_of (snd (localDebugV2 E w)) = Some ls')
       \<and> (outcome = Inr (success out)
            \<longrightarrow> fst (localDebugV2 E w) = Resolved (ok ())
              \<and> localSettings_of (snd (localDebugV2 E w)) = Some out)
       \<and> (\<exists>pre. hooks cu M_localDebugV2 = Some (pre @ ws) \<and> list_all (\<lambda>x. \<not> is_writer x) pre)
       \<and> fst (fst (run_pipeline (sem P) ws (lift (localDebugV2 E)) s)) = fst (localDebugV2 E w)
       \<and> (outcome = Inr (partialSuccess out e)
            \<and> distinct (map fst (concat (map (files_of P pp (snd (localDebugV2 E w))) ws)))
            \<longrightarrow> disk (world (snd (fst (run_pipeline (sem P) ws (lift (localDebugV2 E)) s))))
                  (localSettingsPath P pp) = Some (File (ConfigJson out)))"
proof -
  let ?w' = "snd (localDebugV2 E w)"
  have body: "outcome = Inr (partialSuccess out e)
            \<longrightarrow> fst (localDebugV2 E w) = Resolved (err e)
              \<and> localSettings_of ?w' = Some out"
    "outcome = Inr (failure e)
            \<longrightarrow> fst (localDebugV2 E w) = Resolved (err e)
              \<and> localSettings_of ?w' = Some ls'"
    "outcome = Inr (success out)
            \<longrightarrow> fst (localDebugV2 E w) = Resolved (ok ())
              \<and> localSettings_of ?w' = Some out"
    using c ps sol cx f call
    by (auto simp: localDebugV2_def setStage_def Let_def localSettings_of_def)
  have decl: "\<exists>pre. hooks cu M_localDebugV2 = Some (pre @ ws)
      \<and> list_all (\<lambda>x. \<not> is_writer x) pre"
    unfolding ws
    by (rule exI [of _ "[ErrorHandlerMW, ConcurrentLockerMW, ProjectMigratorMW,
          ProjectSettingsLoaderMW, EnvInfoLoaderMW (\<not> cu), LocalSettingsLoaderMW,
          SolutionLoaderMW, QuestionModelMW, ContextInjectorMW]"]) simp
  have wr: "list_all is_writer ws" unfolding ws by simp
  have t: "lift (localDebugV2 E) s = (fst (localDebugV2 E w), s\<lparr>world := ?w'\<rparr>)"
    using s by (simp add: lift_def split: prod.splits)
  note run = writers_run [where target = "lift (localDebugV2 E)" and ?s1.0 = s and P = P, OF wr t]
  have res: "fst (fst (run_pipeline (sem P) ws (lift (localDebugV2 E)) s)) = fst (localDebugV2 E w)"
    unfolding run by simp
  have pp': "projectPath (inputs ?w') = Some pp"
    using pp by (simp add: localDebugV2_inputs)
  have written: "disk (world (snd (fst (run_pipeline (sem P) ws (lift (localDebugV2 E)) s))))
                  (localSettingsPath P pp) = Some (File (ConfigJson out))"
    if o: "outcome = Inr (partialSuccess out e)"
      and d: "distinct (map fst (concat (map (files_of P pp ?w') ws)))"
  proof -
    from body(1) o have "localSettings_of ?w' = Some out" by simp
    then have "(localSettingsPath P pp, ConfigJson out)
        \<in> set (concat (map (files_of P pp ?w') ws))"
      unfolding ws by simp
    from persist_all_found [OF pp' d this] show ?thesis
      unfolding run by simp
  qed
  from body decl res written show ?thesis by blast
qed

theorem localDebugV2_partial_success_witness:
  "fst (localDebugV2 sampleExternals
      (sampleWorld (Some (debugContext
         (partialSuccess [(''bot'', JObj [])] (PluginError ''tunnel failed'')))) sampleDisk))
     = Resolved (err (PluginError ''tunnel failed''))
   \<and> localSettings_of (snd (localDebugV2 sampleExternals
      (sampleWorld (Some (debugContext
         (partialSuccess [(''bot'', JObj [])] (PluginError ''tunnel failed'')))) sampleDisk)))
     = Some [(''bot'', JObj [])]
   \<and> fst (fst (run_pipeline (sem sampleParams)
        [ProjectSettingsWriterMW, EnvInfoWriterMW (Some True), LocalSettingsWriterMW]
        (lift (localDebugV2 sampleExternals))
        ((sampleProcess {})\<lparr>world := sampleWorld (Some (debugContext
           (partialSuccess [(''bot'', JObj [])] (PluginError ''tunnel failed'')))) sampleDisk\<rparr>)))
     = Resolved (err (PluginError ''tunnel failed''))
   \<and> disk (world (snd (fst (run_pipeline (sem sampleParams)
        [ProjectSettingsWriterMW, EnvInfoWriterMW (Some True), LocalSettingsWriterMW]
        (lift (localDebugV2 sampleExternals))
        ((sampleProcess {})\<lparr>world := sampleWorld (Some (debugContext
           (partialSuccess [(''bot'', JObj [])] (PluginError ''tunnel failed'')))) sampleDisk\<rparr>)))))
      [''home'', ''myapp'', ''.fx'', ''configs'', ''localSettings.json'']
     = Some (File (ConfigJson [(''bot'', JObj [])]))"
proof -
  let ?r = "partialSuccess [(''bot'', JObj [])] (PluginError ''tunnel failed'')"
  let ?c = "debugContext ?r"
  let ?w = "sampleWorld (Some ?c) sampleDisk"
  let ?s = "(sampleProcess {})\<lparr>world := ?w\<rparr>"
  let ?P = "sampleParams :: unit pipeline_params"
  let ?ws = "[ProjectSettingsWriterMW, EnvInfoWriterMW (Some True), LocalSettingsWriterMW]"
  let ?pp = "[''home'', ''myapp'']"
  have c: "ctx ?w = Some ?c" by (simp add: sampleWorld_def)
  have ps: "projectSettings ?c = Some sampleSettings" by (simp add: debugContext_def)
  have sol: "solutionV2 ?c = Some (sampleSolutionV2 ?r)" by (simp add: debugContext_def)
  have cx: "contextV2 ?c = Some (createV2Context sampleSettings)" by (simp add: debugContext_def)
  have f: "provisionLocalResource_v2 (sampleSolutionV2 ?r) = Some (\<lambda>_ _ ls _. (Inr ?r, ls))"
    by (simp add: sampleSolutionV2_def)
  have call: "(\<lambda>_ _ ls _. (Inr ?r, ls)) (createV2Context sampleSettings)
      ((inputs ?w)\<lparr>stage := Some Stage_debug\<rparr>)
      (case localSettings ?c of None \<Rightarrow> [] | Some l \<Rightarrow> l)
      (if isConfigUnifyEnabled sampleExternals then map_option setLocalDebug (envInfoV2 ?c)
       else envInfoV2 ?c) = (Inr ?r, [])"
    by (simp add: debugContext_def emptyContext_def)
  have pp: "projectPath (inputs ?w) = Some ?pp"
    by (simp add: sampleWorld_def sampleInputs_def)
  have s: "world ?s = ?w" by simp
  have ws: "?ws = [ProjectSettingsWriterMW, EnvInfoWriterMW (Some (\<not> False)),
      LocalSettingsWriterMW]" by simp
  note main = localDebugV2_partial_success
    [where P = ?P and out = "[(''bot'', JObj [])]" and e = "PluginError ''tunnel failed''",
      OF c ps sol cx f call pp s ws]
  from main have r: "fst (localDebugV2 sampleExternals ?w) = Resolved (err (PluginError ''tunnel failed''))"
    and l: "localSettings_of (snd (localDebugV2 sampleExternals ?w)) = Some [(''bot'', JObj [])]"
    and p: "fst (fst (run_pipeline (sem ?P) ?ws (lift (localDebugV2 sampleExternals)) ?s))
              = fst (localDebugV2 sampleExternals ?w)"
    by blast+
  have st: "settings_of (snd (localDebugV2 sampleExternals ?w)) = Some sampleSettings"
    by (simp add: localDebugV2_def setStage_def sampleWorld_def debugContext_def emptyContext_def
        sampleSolutionV2_def sampleExternals_def settings_of_def)
  have d: "distinct (map fst (concat (map (files_of ?P ?pp
      (snd (localDebugV2 sampleExternals ?w))) ?ws)))"
    by (simp add: l st sampleParams_def)
  from main d have "disk (world (snd (fst (run_pipeline (sem ?P) ?ws
        (lift (localDebugV2 sampleExternals)) ?s)))) (localSettingsPath ?P ?pp)
      = Some (File (ConfigJson [(''bot'', JObj [])]))"
    by blast
  then have k: "disk (world (snd (fst (run_pipeline (sem ?P) ?ws
        (lift (localDebugV2 sampleExternals)) ?s))))
        [''home'', ''myapp'', ''.fx'', ''configs'', ''localSettings.json'']
      = Some (File (ConfigJson [(''bot'', JObj [])]))"
    by (simp add: sampleParams_def)
  from r l p k show ?thesis by simp
qed

theorem localDebugV2_partial_counterexample:
  "fst (localDebugV2 sampleExternals
      (sampleWorld (Some (debugContext
         (partialSuccess [(''bot'', JObj [])] (PluginError ''tunnel failed'')))) sampleDisk))
   = fst (localDebugV2 sampleExternals
      (sampleWorld (Some (debugContext (failure (PluginError ''tunnel failed'')))) sampleDisk))
   \<and> fst (localDebugV2 sampleExternals
      (sampleWorld (Some (debugContext (failure (PluginError ''tunnel failed'')))) sampleDisk))
   = Resolved (err (PluginError ''tunnel failed''))
   \<and> localSettings_of (snd (localDebugV2 sampleExternals
      (sampleWorld (Some (debugContext (partialSuccess [] (PluginError ''tunnel failed''))))
         sampleDisk)))
   = localSettings_of (snd (localDebugV2 sampleExternals
      (sampleWorld (Some (debugContext (failure (PluginError ''tunnel failed'')))) sampleDisk)))"
  by (simp add: localDebugV2_def setStage_def sampleWorld_def debugContext_def emptyContext_def
      sampleSolutionV2_def sampleExternals_def localSettings_of_def)


subsection \<open>The lock\<close>














end
